theory Spec2Isabelle
  imports Main "HOL-Library.AList"
begin

section \<open>Manifest data model\<close>

text \<open>
  Hashes are the manifest's unsigned 32-bit identifiers; the program only compares them
  and prints them with \<^verbatim>\<open>String(hash)\<close>, so they are natural numbers here.
  Optional fields of the TypeScript declarations (\<^verbatim>\<open>field?: T\<close>, and every place
  where the program writes \<^verbatim>\<open>?.\<close> or \<^verbatim>\<open>??\<close>) are \<open>option\<close>s.
\<close>

type_synonym hash = nat

record DisplayProperties =
  dp_name :: string
  dp_description :: string
  dp_icon :: "string option"

record Inventory =
  bucketTypeHash :: "hash option"
  inv_tierType :: "nat option"

record EquippingBlock =
  eq_ammoType :: nat

record PlugBlock =
  plugCategoryHash :: "hash option"

record SocketPlugItem =
  sp_plugItemHash :: hash

record SocketEntry =
  socketTypeHash :: hash
  singleInitialItemHash :: hash
  se_reusablePlugItems :: "SocketPlugItem list"
  randomizedPlugSetHash :: "hash option"
  reusablePlugSetHash :: "hash option"

record SocketCategory =
  socketCategoryHash :: hash
  socketIndexes :: "int list"

record SocketBlock =
  socketEntries :: "SocketEntry list"
  socketCategories :: "SocketCategory list"

record ItemDef =
  item_hash :: hash
  displayProperties :: DisplayProperties
  flavorText :: string
  itemTypeDisplayName :: string
  itemCategoryHashes :: "hash list option"
  inventory :: "Inventory option"
  equippingBlock :: "EquippingBlock option"
  defaultDamageTypeHash :: "hash option"
  iconWatermark :: "string option"
  iconWatermarkShelved :: "string option"
  iconWatermarkFeatured :: "string option"
  screenshot :: "string option"
  secondaryIcon :: "string option"
  isAdept :: "bool option"
  isHolofoil :: "bool option"
  isFeaturedItem :: "bool option"
  redacted :: bool
  plug :: "PlugBlock option"
  sockets :: "SocketBlock option"

text \<open>
  The declarations give \<^verbatim>\<open>iconWatermark\<close> and \<^verbatim>\<open>iconWatermarkShelved\<close> the type
  \<^verbatim>\<open>string\<close>, but the manifest leaves them out of items that carry no watermark, and
  the program reads their \<^verbatim>\<open>length\<close> unguarded; so the two fields are optional here,
  \<open>None\<close> being the absent field. Every other unguarded read follows the declared
  types.
\<close>

record PlugSetItem =
  ps_plugItemHash :: hash
  currentlyCanRoll :: bool

record PlugSetDef =
  ps_reusablePlugItems :: "PlugSetItem list"

record CollectibleDef =
  col_itemHash :: hash
  col_sourceHash :: "hash option"

record DamageTypeDef =
  enumValue :: nat
  dt_icon :: "string option"

text \<open>
  A definition table is a JSON object from the decimal rendering of a hash to a
  definition, typed \<^verbatim>\<open>{ [hash: string]: T | undefined }\<close>. It is an association list
  in the object's enumeration order: \<open>table_get\<close> is the property read
  \<^verbatim>\<open>table[key]\<close> (a missing key and an \<^verbatim>\<open>undefined\<close> value both read as
  \<^verbatim>\<open>undefined\<close>), \<open>Object_values\<close> is \<^verbatim>\<open>Object.values(table)\<close>.
\<close>

type_synonym 'a DefinitionTable = "(string \<times> 'a option) list"

definition table_get :: "'a DefinitionTable \<Rightarrow> string \<Rightarrow> 'a option" where
  "table_get t k = (case map_of t k of None \<Rightarrow> None | Some v \<Rightarrow> v)"

definition Object_values :: "'a DefinitionTable \<Rightarrow> 'a option list" where
  "Object_values t = map snd t"

record ManifestTables =
  DestinyInventoryItemDefinition :: "ItemDef DefinitionTable"
  DestinyPlugSetDefinition :: "PlugSetDef DefinitionTable"
  DestinyCollectibleDefinition :: "CollectibleDef DefinitionTable"
  DestinyDamageTypeDefinition :: "DamageTypeDef DefinitionTable"
  DestinySocketTypeDefinition :: "unit DefinitionTable"
  DestinySocketCategoryDefinition :: "unit DefinitionTable"

text \<open>\<^verbatim>\<open>String(n)\<close> on a non-negative integer: its decimal digits.\<close>

definition digit_char :: "nat \<Rightarrow> char" where
  "digit_char d = ''0123456789'' ! d"

function String_of :: "nat \<Rightarrow> string" where
  "String_of n = (if n < 10 then [digit_char n] else String_of (n div 10) @ [digit_char (n mod 10)])"
  by pat_completeness auto
termination
  by (relation "measure (\<lambda>n. n)") auto

declare String_of.simps [simp del]

subsection \<open>Auxiliary lookups and output records\<close>

type_synonym 'a LookupTable = "string \<rightharpoonup> 'a"

record D2AIData =
  watermarkToSeason :: "int LookupTable"
  watermarkToEvent :: "int LookupTable"
  sourceToSeason :: "int LookupTable"
  seasons :: "int LookupTable"
  events :: "int LookupTable"
  craftableHashes :: "hash list"

record Frame =
  frame_hash :: hash
  frame_name :: string
  frame_description :: string
  frame_iconSrc :: "string option"

record Intrinsic =
  intr_hash :: hash
  intr_name :: string
  intr_description :: string
  intr_iconSrc :: "string option"

record PerkOptions =
  opt_isCurated :: bool
  opt_curatedExclusive :: bool
  opt_isDeprecated :: bool

record Perk =
  perk_hash :: hash
  perk_name :: string
  perk_description :: string
  perk_itemType :: string
  perk_iconSrc :: "string option"
  isCurated :: bool
  curatedExclusive :: bool
  isDeprecated :: bool

record WeaponItem =
  wi_hash :: hash
  wi_name :: string
  wi_flavorText :: string
  wi_tierType :: nat
  wi_itemType :: string
  wi_damageType :: nat
  wi_slot :: int
  wi_ammoType :: nat
  wi_source :: "hash option"
  wi_iconSrc :: "string option"
  wi_watermarkSrc :: "string option"
  wi_watermarkFeaturedSrc :: "string option"
  wi_screenshotSrc :: "string option"
  wi_foundrySrc :: "string option"
  wi_isCraftable :: bool
  wi_isAdept :: bool
  wi_isHolofoil :: bool
  wi_isFeatured :: bool
  wi_season :: "int option"
  wi_event :: "int option"

record WeaponFull =
  wf_hash :: hash
  wf_item :: WeaponItem
  wf_frame :: "Frame option"
  wf_intrinsics :: "Intrinsic list"
  wf_perks :: "Perk list list"

record WeaponConcise =
  wc_hash :: hash
  wc_name :: string
  wc_tierType :: nat
  wc_itemType :: string
  wc_damageType :: nat
  wc_slot :: int
  wc_ammoType :: nat
  wc_source :: "hash option"
  wc_iconSrc :: "string option"
  wc_watermarkSrc :: "string option"
  wc_watermarkFeaturedSrc :: "string option"
  wc_isCraftable :: bool
  wc_isAdept :: bool
  wc_isHolofoil :: bool
  wc_isFeatured :: bool
  wc_season :: "int option"
  wc_event :: "int option"
  wc_frame :: string
  wc_perks :: "string list list"

record TransformResult =
  full :: "WeaponFull list"
  concise :: "WeaponConcise list"

section \<open>Identifier catalog\<close>

text \<open>The constants of \<^verbatim>\<open>lib/constants\<close> (\<^verbatim>\<open>src/unnamed/part_011\<close>) that the pipeline reads.\<close>

definition BucketHashes_KineticWeapons :: hash where "BucketHashes_KineticWeapons = 1498876634"
definition BucketHashes_EnergyWeapons :: hash where "BucketHashes_EnergyWeapons = 2465295065"
definition BucketHashes_PowerWeapons :: hash where "BucketHashes_PowerWeapons = 953998645"

definition WEAPON_BUCKET_HASHES :: "hash list" where
  "WEAPON_BUCKET_HASHES =
     [BucketHashes_KineticWeapons, BucketHashes_EnergyWeapons, BucketHashes_PowerWeapons]"

definition SocketCategoryHashes_IntrinsicTraits :: hash where
  "SocketCategoryHashes_IntrinsicTraits = 3956125808"
definition SocketCategoryHashes_WeaponPerks :: hash where
  "SocketCategoryHashes_WeaponPerks = 4241085061"
definition SocketTypeHashes_Tracker :: hash where
  "SocketTypeHashes_Tracker = 1282012138"

definition EmptyPlugCategoryHashes_EmptySocketPlug :: hash where
  "EmptyPlugCategoryHashes_EmptySocketPlug = 3618704867"
definition EmptyPlugCategoryHashes_EmptyModSocketPlug :: hash where
  "EmptyPlugCategoryHashes_EmptyModSocketPlug = 1915962497"
definition EMPTY_PLUG_CATEGORY_HASHES :: "hash list" where
  "EMPTY_PLUG_CATEGORY_HASHES =
     [EmptyPlugCategoryHashes_EmptySocketPlug, EmptyPlugCategoryHashes_EmptyModSocketPlug]"

definition ItemCategoryHashes_Weapon :: hash where "ItemCategoryHashes_Weapon = 1"
definition ItemCategoryHashes_Dummies :: hash where "ItemCategoryHashes_Dummies = 3109687656"
definition ItemCategoryHashes_WeaponModsOriginTraits :: hash where
  "ItemCategoryHashes_WeaponModsOriginTraits = 1052191891"

definition ENHANCED_PERK_TIER_TYPE :: nat where "ENHANCED_PERK_TIER_TYPE = 3"

definition BUNGIE_NET :: string where "BUNGIE_NET = ''https://www.bungie.net''"

section \<open>Attribute derivation\<close>

text \<open>
  \<open>getSeason\<close> and \<open>getEvent\<close> are the season module (the second file of
  \<^verbatim>\<open>src/unnamed/part_007\<close>); \<open>getWatermark\<close>, \<open>getSlot\<close> and \<open>prefixBungieOrNull\<close>
  are the transformer's (\<^verbatim>\<open>src/unnamed/part_008\<close>).
  \<^verbatim>\<open>if (watermark)\<close> and \<^verbatim>\<open>if (sourceHash)\<close> are JavaScript truthiness tests: a
  string passes when it is non-empty, a number when it is not zero.
\<close>

definition getSeason :: "ItemDef \<Rightarrow> string option \<Rightarrow> hash option \<Rightarrow> D2AIData \<Rightarrow> int option" where
  "getSeason itemDef watermark sourceHash d2aiData =
     (case (case watermark of
              None \<Rightarrow> None
            | Some w \<Rightarrow> if w \<noteq> [] then watermarkToSeason d2aiData w else None) of
        Some season \<Rightarrow> Some season
      | None \<Rightarrow>
          (case (case sourceHash of
                   None \<Rightarrow> None
                 | Some sh \<Rightarrow> if sh \<noteq> 0 then sourceToSeason d2aiData (String_of sh) else None) of
             Some season \<Rightarrow> Some season
           | None \<Rightarrow> seasons d2aiData (String_of (item_hash itemDef))))"

definition getEvent :: "ItemDef \<Rightarrow> string option \<Rightarrow> hash option \<Rightarrow> D2AIData \<Rightarrow> int option" where
  "getEvent itemDef watermark sourceHash d2aiData =
     (case (case watermark of
              None \<Rightarrow> None
            | Some w \<Rightarrow> if w \<noteq> [] then watermarkToEvent d2aiData w else None) of
        Some eventId \<Rightarrow> Some eventId
      | None \<Rightarrow> events d2aiData (String_of (item_hash itemDef)))"

text \<open>
  Reading \<^verbatim>\<open>.length\<close> of an absent field throws a \<^verbatim>\<open>TypeError\<close>; the error names
  the field. \<open>getWatermark\<close> returns the watermark or the error it throws.
\<close>

datatype js_error = TypeError string

definition getWatermark :: "ItemDef \<Rightarrow> js_error + string option" where
  "getWatermark itemDef =
     (case iconWatermark itemDef of
        None \<Rightarrow> Inl (TypeError ''iconWatermark'')
      | Some primary \<Rightarrow>
          if length primary > 0 then Inr (Some primary)
          else (case iconWatermarkShelved itemDef of
                  None \<Rightarrow> Inl (TypeError ''iconWatermarkShelved'')
                | Some shelved \<Rightarrow>
                    if length shelved > 0 then Inr (Some shelved) else Inr None))"

definition getSlot :: "hash \<Rightarrow> int" where
  "getSlot bucketHash =
     (if bucketHash = 1498876634 then 0
      else if bucketHash = 2465295065 then 1
      else if bucketHash = 953998645 then 2
      else - 1)"

definition prefixBungieOrNull :: "string option \<Rightarrow> string option" where
  "prefixBungieOrNull path =
     (case path of
        None \<Rightarrow> None
      | Some p \<Rightarrow> if length p = 0 then None else Some (BUNGIE_NET @ p))"

section \<open>Weapon qualification\<close>

text \<open>From here to \<open>transformWeapons\<close>: the transformer, \<^verbatim>\<open>src/unnamed/part_008\<close>.\<close>

definition isWeapon :: "ItemDef \<Rightarrow> bool" where
  "isWeapon itemDef =
     (let categories = (case itemCategoryHashes itemDef of None \<Rightarrow> [] | Some cs \<Rightarrow> cs);
          bucketHash = (case inventory itemDef of None \<Rightarrow> None | Some iv \<Rightarrow> bucketTypeHash iv)
      in ItemCategoryHashes_Weapon \<in> set categories \<and>
         ItemCategoryHashes_Dummies \<notin> set categories \<and>
         (case bucketHash of
            None \<Rightarrow> False
          | Some b \<Rightarrow>
              b \<in> set WEAPON_BUCKET_HASHES \<and>
              dp_name (displayProperties itemDef) \<noteq> [] \<and>
              \<not> redacted itemDef))"

section \<open>Socket and plug resolution\<close>

text \<open>
  \<^verbatim>\<open>Array.prototype.at\<close>: a negative index counts from the end, an index out of range
  reads \<^verbatim>\<open>undefined\<close>.
\<close>

definition array_at :: "'a list \<Rightarrow> int \<Rightarrow> 'a option" where
  "array_at xs i =
     (let n = int (length xs); k = (if i < 0 then n + i else i)
      in if 0 \<le> k \<and> k < n then Some (xs ! nat k) else None)"

definition getSocketsByCategory :: "ItemDef \<Rightarrow> hash \<Rightarrow> SocketEntry list" where
  "getSocketsByCategory itemDef categoryHash =
     (case sockets itemDef of
        None \<Rightarrow> []
      | Some socketData \<Rightarrow>
          (case find (\<lambda>c. socketCategoryHash c = categoryHash) (socketCategories socketData) of
             None \<Rightarrow> []
           | Some category \<Rightarrow>
               fold (\<lambda>index acc.
                       case array_at (socketEntries socketData) index of
                         None \<Rightarrow> acc
                       | Some socket \<Rightarrow> acc @ [socket])
                    (socketIndexes category) []))"

definition getFrame :: "ItemDef \<Rightarrow> ManifestTables \<Rightarrow> Frame option" where
  "getFrame itemDef tables =
     (case array_at (getSocketsByCategory itemDef SocketCategoryHashes_IntrinsicTraits) 0 of
        None \<Rightarrow> None
      | Some socket \<Rightarrow>
          (let plugHash = singleInitialItemHash socket in
           if plugHash = 0 then None
           else (case table_get (DestinyInventoryItemDefinition tables) (String_of plugHash) of
                   None \<Rightarrow> None
                 | Some plugDef \<Rightarrow>
                     Some \<lparr>frame_hash = item_hash plugDef,
                           frame_name = dp_name (displayProperties plugDef),
                           frame_description = dp_description (displayProperties plugDef),
                           frame_iconSrc = prefixBungieOrNull (dp_icon (displayProperties plugDef))\<rparr>)))"

definition getIntrinsics :: "ItemDef \<Rightarrow> ManifestTables \<Rightarrow> Intrinsic list" where
  "getIntrinsics itemDef tables =
     fold (\<lambda>socket intrinsics.
             let plugHash = singleInitialItemHash socket in
             if plugHash = 0 then intrinsics
             else (case table_get (DestinyInventoryItemDefinition tables) (String_of plugHash) of
                     None \<Rightarrow> intrinsics
                   | Some plugDef \<Rightarrow>
                       (let plugCategories =
                              (case itemCategoryHashes plugDef of None \<Rightarrow> [] | Some cs \<Rightarrow> cs)
                        in if ItemCategoryHashes_WeaponModsOriginTraits \<in> set plugCategories
                           then intrinsics @
                                [\<lparr>intr_hash = item_hash plugDef,
                                  intr_name = dp_name (displayProperties plugDef),
                                  intr_description = dp_description (displayProperties plugDef),
                                  intr_iconSrc = prefixBungieOrNull (dp_icon (displayProperties plugDef))\<rparr>]
                           else intrinsics)))
          (getSocketsByCategory itemDef SocketCategoryHashes_WeaponPerks) []"

text \<open>
  A JavaScript \<^verbatim>\<open>Set<number>\<close> iterates in insertion order and ignores the insertion
  of a member it already has: a list without repetitions, extended at the end.
\<close>

definition Set_add :: "hash list \<Rightarrow> hash \<Rightarrow> hash list" where
  "Set_add s x = (if x \<in> set s then s else s @ [x])"

definition Set_has :: "hash list \<Rightarrow> hash \<Rightarrow> bool" where
  "Set_has s x = (x \<in> set s)"

definition getCuratedPlugHashes :: "SocketEntry \<Rightarrow> hash list" where
  "getCuratedPlugHashes socket =
     fold (\<lambda>plug curated. Set_add curated (sp_plugItemHash plug)) (se_reusablePlugItems socket) []"

definition isEmptyPlug :: "ItemDef \<Rightarrow> bool" where
  "isEmptyPlug plugDef =
     (case (case plug plugDef of None \<Rightarrow> None | Some p \<Rightarrow> plugCategoryHash p) of
        None \<Rightarrow> False
      | Some h \<Rightarrow> Set_has EMPTY_PLUG_CATEGORY_HASHES h)"

definition isEnhancedPerk :: "ItemDef \<Rightarrow> bool" where
  "isEnhancedPerk plugDef =
     ((case inventory plugDef of None \<Rightarrow> None | Some iv \<Rightarrow> inv_tierType iv)
        = Some ENHANCED_PERK_TIER_TYPE)"

definition isValidPerk :: "ItemDef \<Rightarrow> bool" where
  "isValidPerk plugDef =
     (length (dp_name (displayProperties plugDef)) > 0 \<and>
      \<not> isEmptyPlug plugDef \<and> \<not> isEnhancedPerk plugDef)"

definition createPerk :: "ItemDef \<Rightarrow> PerkOptions \<Rightarrow> Perk" where
  "createPerk plugDef options =
     \<lparr>perk_hash = item_hash plugDef,
      perk_name = dp_name (displayProperties plugDef),
      perk_description = dp_description (displayProperties plugDef),
      perk_itemType = itemTypeDisplayName plugDef,
      perk_iconSrc = prefixBungieOrNull (dp_icon (displayProperties plugDef)),
      isCurated = opt_isCurated options,
      curatedExclusive = opt_curatedExclusive options,
      isDeprecated = opt_isDeprecated options\<rparr>"

text \<open>The loop state of \<open>getPerksFromReusablePlugItems\<close> is the pair (perks, seenHashes).\<close>

definition getPerksFromReusablePlugItems :: "SocketEntry \<Rightarrow> ManifestTables \<Rightarrow> Perk list" where
  "getPerksFromReusablePlugItems socket tables =
     fst (fold (\<lambda>plug (perks, seenHashes).
                  case table_get (DestinyInventoryItemDefinition tables)
                         (String_of (sp_plugItemHash plug)) of
                    None \<Rightarrow> (perks, seenHashes)
                  | Some plugDef \<Rightarrow>
                      if \<not> isValidPerk plugDef then (perks, seenHashes)
                      else if Set_has seenHashes (item_hash plugDef) then (perks, seenHashes)
                      else (perks @
                              [createPerk plugDef
                                 \<lparr>opt_isCurated = (sp_plugItemHash plug = singleInitialItemHash socket),
                                  opt_curatedExclusive = False,
                                  opt_isDeprecated = False\<rparr>],
                            Set_add seenHashes (item_hash plugDef)))
               (se_reusablePlugItems socket) ([], []))"

definition getFixedPerk :: "SocketEntry \<Rightarrow> ManifestTables \<Rightarrow> Perk option" where
  "getFixedPerk socket tables =
     (if singleInitialItemHash socket = 0 then None
      else (case table_get (DestinyInventoryItemDefinition tables)
                   (String_of (singleInitialItemHash socket)) of
              None \<Rightarrow> None
            | Some plugDef \<Rightarrow>
                if \<not> isValidPerk plugDef then None
                else Some (createPerk plugDef
                             \<lparr>opt_isCurated = True,
                              opt_curatedExclusive = True,
                              opt_isDeprecated = False\<rparr>)))"

definition getPerksFromPlugSet :: "SocketEntry \<Rightarrow> PlugSetDef \<Rightarrow> ManifestTables \<Rightarrow> Perk list" where
  "getPerksFromPlugSet socket plugSet tables =
     (let curatedHashes = getCuratedPlugHashes socket;
          randomPoolHashes =
            fold (\<lambda>h s. Set_add s h) (map ps_plugItemHash (ps_reusablePlugItems plugSet)) [];
          perks1 =
            fold (\<lambda>plug perks.
                    case table_get (DestinyInventoryItemDefinition tables)
                           (String_of (ps_plugItemHash plug)) of
                      None \<Rightarrow> perks
                    | Some plugDef \<Rightarrow>
                        if \<not> isValidPerk plugDef then perks
                        else perks @
                               [createPerk plugDef
                                  \<lparr>opt_isCurated = Set_has curatedHashes (ps_plugItemHash plug),
                                   opt_curatedExclusive = False,
                                   opt_isDeprecated = (\<not> currentlyCanRoll plug)\<rparr>])
                 (ps_reusablePlugItems plugSet) []
      in fold (\<lambda>curatedHash perks.
                 if Set_has randomPoolHashes curatedHash then perks
                 else (case table_get (DestinyInventoryItemDefinition tables)
                              (String_of curatedHash) of
                         None \<Rightarrow> perks
                       | Some plugDef \<Rightarrow>
                           if \<not> isValidPerk plugDef then perks
                           else perks @
                                  [createPerk plugDef
                                     \<lparr>opt_isCurated = True,
                                      opt_curatedExclusive = True,
                                      opt_isDeprecated = False\<rparr>]))
              curatedHashes perks1)"

text \<open>
  One iteration of the loop of \<open>getPerks\<close>: the columns collected so far, extended by the
  socket's column or left as they are (\<^verbatim>\<open>continue\<close>).
\<close>

definition getPerks_step :: "ManifestTables \<Rightarrow> SocketEntry \<Rightarrow> Perk list list \<Rightarrow> Perk list list" where
  "getPerks_step tables socket perkColumns =
     (if socketTypeHash socket = SocketTypeHashes_Tracker then perkColumns
      else
        (case (case randomizedPlugSetHash socket of
                 Some h \<Rightarrow> Some h
               | None \<Rightarrow> reusablePlugSetHash socket) of
           None \<Rightarrow>
             (if length (se_reusablePlugItems socket) > 0 then
                (let perks = getPerksFromReusablePlugItems socket tables
                 in if length perks > 0 then perkColumns @ [perks] else perkColumns)
              else
                (case getFixedPerk socket tables of
                   Some fixedPerk \<Rightarrow> perkColumns @ [[fixedPerk]]
                 | None \<Rightarrow> perkColumns))
         | Some plugSetHash \<Rightarrow>
             (case table_get (DestinyPlugSetDefinition tables) (String_of plugSetHash) of
                None \<Rightarrow> perkColumns
              | Some plugSet \<Rightarrow>
                  (let perks = getPerksFromPlugSet socket plugSet tables
                   in if length perks > 0 then perkColumns @ [perks] else perkColumns))))"

definition getPerks :: "ItemDef \<Rightarrow> ManifestTables \<Rightarrow> Perk list list" where
  "getPerks itemDef tables =
     fold (getPerks_step tables) (getSocketsByCategory itemDef SocketCategoryHashes_WeaponPerks) []"

section \<open>Weapon record builder\<close>

definition toWeaponConcise :: "WeaponFull \<Rightarrow> WeaponConcise" where
  "toWeaponConcise weaponFull =
     \<lparr>wc_hash = wf_hash weaponFull,
      wc_name = wi_name (wf_item weaponFull),
      wc_tierType = wi_tierType (wf_item weaponFull),
      wc_itemType = wi_itemType (wf_item weaponFull),
      wc_damageType = wi_damageType (wf_item weaponFull),
      wc_slot = wi_slot (wf_item weaponFull),
      wc_ammoType = wi_ammoType (wf_item weaponFull),
      wc_source = wi_source (wf_item weaponFull),
      wc_iconSrc = wi_iconSrc (wf_item weaponFull),
      wc_watermarkSrc = wi_watermarkSrc (wf_item weaponFull),
      wc_watermarkFeaturedSrc = wi_watermarkFeaturedSrc (wf_item weaponFull),
      wc_isCraftable = wi_isCraftable (wf_item weaponFull),
      wc_isAdept = wi_isAdept (wf_item weaponFull),
      wc_isHolofoil = wi_isHolofoil (wf_item weaponFull),
      wc_isFeatured = wi_isFeatured (wf_item weaponFull),
      wc_season = wi_season (wf_item weaponFull),
      wc_event = wi_event (wf_item weaponFull),
      wc_frame = (case wf_frame weaponFull of None \<Rightarrow> [] | Some f \<Rightarrow> frame_name f),
      wc_perks = map (\<lambda>column. map (\<lambda>perk. perk_name perk) column) (wf_perks weaponFull)\<rparr>"

text \<open>
  \<open>extractWeaponItem\<close> calls \<open>getWatermark\<close> before it builds the record, so it throws
  what \<open>getWatermark\<close> throws.
\<close>

definition extractWeaponItem ::
  "ItemDef \<Rightarrow> ManifestTables \<Rightarrow> D2AIData \<Rightarrow> (string \<rightharpoonup> hash) \<Rightarrow> js_error + WeaponItem" where
  "extractWeaponItem itemDef tables d2aiData collectibleByItemHash =
     (let bucketHash =
            (case (case inventory itemDef of None \<Rightarrow> None | Some iv \<Rightarrow> bucketTypeHash iv) of
               None \<Rightarrow> 0 | Some b \<Rightarrow> b)
      in case getWatermark itemDef of
           Inl e \<Rightarrow> Inl e
         | Inr watermark \<Rightarrow>
             (let damageTypeDef =
                    (case defaultDamageTypeHash itemDef of
                       None \<Rightarrow> None
                     | Some h \<Rightarrow>
                         if h \<noteq> 0
                         then table_get (DestinyDamageTypeDefinition tables) (String_of h)
                         else None);
                  sourceHash = collectibleByItemHash (String_of (item_hash itemDef))
              in Inr
                 \<lparr>wi_hash = item_hash itemDef,
                  wi_name = dp_name (displayProperties itemDef),
                  wi_flavorText = flavorText itemDef,
                  wi_tierType =
                    (case (case inventory itemDef of
                             None \<Rightarrow> None | Some iv \<Rightarrow> inv_tierType iv) of
                       None \<Rightarrow> 0 | Some t \<Rightarrow> t),
                  wi_itemType = itemTypeDisplayName itemDef,
                  wi_damageType = (case damageTypeDef of None \<Rightarrow> 0 | Some d \<Rightarrow> enumValue d),
                  wi_slot = getSlot bucketHash,
                  wi_ammoType =
                    (case equippingBlock itemDef of None \<Rightarrow> 0 | Some e \<Rightarrow> eq_ammoType e),
                  wi_source = sourceHash,
                  wi_iconSrc = prefixBungieOrNull (dp_icon (displayProperties itemDef)),
                  wi_watermarkSrc = prefixBungieOrNull (iconWatermark itemDef),
                  wi_watermarkFeaturedSrc = prefixBungieOrNull (iconWatermarkFeatured itemDef),
                  wi_screenshotSrc = prefixBungieOrNull (screenshot itemDef),
                  wi_foundrySrc = prefixBungieOrNull (secondaryIcon itemDef),
                  wi_isCraftable = (item_hash itemDef \<in> set (craftableHashes d2aiData)),
                  wi_isAdept = (case isAdept itemDef of None \<Rightarrow> False | Some b \<Rightarrow> b),
                  wi_isHolofoil = (case isHolofoil itemDef of None \<Rightarrow> False | Some b \<Rightarrow> b),
                  wi_isFeatured =
                    (case isFeaturedItem itemDef of None \<Rightarrow> False | Some b \<Rightarrow> b),
                  wi_season = getSeason itemDef watermark sourceHash d2aiData,
                  wi_event = getEvent itemDef watermark sourceHash d2aiData\<rparr>))"

text \<open>
  The body of the \<^verbatim>\<open>try\<close> block of \<open>transformWeapons\<close>: the full record of one
  item, or the error thrown while building it (\<open>extractWeaponItem\<close> runs first).
\<close>

definition buildWeaponFull ::
  "ManifestTables \<Rightarrow> D2AIData \<Rightarrow> (string \<rightharpoonup> hash) \<Rightarrow> ItemDef \<Rightarrow> js_error + WeaponFull" where
  "buildWeaponFull tables d2aiData collectibleByItemHash itemDef =
     (case extractWeaponItem itemDef tables d2aiData collectibleByItemHash of
        Inl e \<Rightarrow> Inl e
      | Inr weaponItem \<Rightarrow>
          Inr \<lparr>wf_hash = item_hash itemDef,
               wf_item = weaponItem,
               wf_frame = getFrame itemDef tables,
               wf_intrinsics = getIntrinsics itemDef tables,
               wf_perks = getPerks itemDef tables\<rparr>)"

definition collectibleLookup :: "ManifestTables \<Rightarrow> (string \<rightharpoonup> hash)" where
  "collectibleLookup tables =
     fold (\<lambda>entry m.
             case entry of
               None \<Rightarrow> m
             | Some collectible \<Rightarrow>
                 if col_itemHash collectible \<noteq> 0
                 then m(String_of (col_itemHash collectible) \<mapsto>
                          (case col_sourceHash collectible of None \<Rightarrow> 0 | Some s \<Rightarrow> s))
                 else m)
          (Object_values (DestinyCollectibleDefinition tables)) Map.empty"

definition weaponsOf :: "ManifestTables \<Rightarrow> ItemDef list" where
  "weaponsOf tables =
     List.map_filter
       (\<lambda>entry. case entry of None \<Rightarrow> None | Some item \<Rightarrow> if isWeapon item then Some item else None)
       (Object_values (DestinyInventoryItemDefinition tables))"

text \<open>
  The loop of \<open>transformWeapons\<close>: an item whose build throws lands in the
  \<^verbatim>\<open>catch\<close> block, which logs a warning and pushes nothing.
\<close>

definition transformWeapons :: "ManifestTables \<Rightarrow> D2AIData \<Rightarrow> TransformResult" where
  "transformWeapons tables d2aiData =
     (let collectibleByItemHash = collectibleLookup tables;
          weapons = weaponsOf tables
      in fold (\<lambda>itemDef acc.
                 case buildWeaponFull tables d2aiData collectibleByItemHash itemDef of
                   Inl e \<Rightarrow> acc
                 | Inr weaponFull \<Rightarrow>
                     \<lparr>full = full acc @ [weaponFull],
                      concise = concise acc @ [toWeaponConcise weaponFull]\<rparr>)
              weapons \<lparr>full = [], concise = []\<rparr>)"

section \<open>Network and persisted state\<close>

text \<open>
  What a \<^verbatim>\<open>fetch\<close> of one URL can do: reject, or resolve to a response with its
  \<^verbatim>\<open>ok\<close> flag and the value of \<^verbatim>\<open>response.json()\<close> (\<open>None\<close> when parsing
  rejects). Every \<^verbatim>\<open>throw\<close> and every rejected promise is an \<open>Inl\<close> result.
\<close>

datatype 'a http = Rejected | Reply bool "'a option"

datatype fetch_error =
    FetchRejected
  | HttpNotOk string
  | JsonRejected
  | MissingResponseField
  | MissingPath string

record ManifestResponse =
  resp_version :: string
  resp_paths_en :: "string \<rightharpoonup> string"

record ManifestDocument =
  doc_Response :: "ManifestResponse option"

record ManifestMetadata =
  meta_version :: string
  meta_paths :: "string \<rightharpoonup> string"

text \<open>
  The remote servers, one typed endpoint per kind of document (the program casts each
  parsed body to the declared type without inspecting it).
\<close>

record Remote =
  manifest_endpoint :: "ManifestDocument http"
  item_tables :: "string \<Rightarrow> ItemDef DefinitionTable http"
  plugset_tables :: "string \<Rightarrow> PlugSetDef DefinitionTable http"
  collectible_tables :: "string \<Rightarrow> CollectibleDef DefinitionTable http"
  damagetype_tables :: "string \<Rightarrow> DamageTypeDef DefinitionTable http"
  sockettype_tables :: "string \<Rightarrow> unit DefinitionTable http"
  socketcategory_tables :: "string \<Rightarrow> unit DefinitionTable http"
  lookup_files :: "string \<Rightarrow> int LookupTable http"
  hash_files :: "string \<Rightarrow> hash list http"

text \<open>The network requests a run issues, in order, each with its URL.\<close>

datatype Request = MetadataRequest string | TableRequest string | D2AIRequest string

text \<open>
  The Dexie database: \<open>metadata\<close> holds the one key \<^verbatim>\<open>"version"\<close>, \<open>helperData\<close> the
  keys \<^verbatim>\<open>"d2ai"\<close> and \<^verbatim>\<open>"damageTypeIcons"\<close>; the two weapon tables are keyed by
  hash, \<^verbatim>\<open>put\<close> replacing the record of an existing key. Store operations are taken
  to succeed.
\<close>

record Database =
  metadata_version :: "string option"
  helperData_d2ai :: "D2AIData option"
  helperData_damageTypeIcons :: "(nat \<rightharpoonup> string) option"
  weapons :: "(hash \<times> WeaponFull) list"
  weaponsConcise :: "(hash \<times> WeaponConcise) list"

definition bulkPut :: "('a \<Rightarrow> hash) \<Rightarrow> 'a list \<Rightarrow> (hash \<times> 'a) list \<Rightarrow> (hash \<times> 'a) list" where
  "bulkPut keyOf records tbl = fold (\<lambda>r t. AList.update (keyOf r) r t) records tbl"

definition table_count :: "(hash \<times> 'a) list \<Rightarrow> nat" where
  "table_count tbl = length tbl"

section \<open>Auxiliary lookup loader\<close>

text \<open>\<^verbatim>\<open>src/src/services/manifest/d2ai.ts\<close>.\<close>

definition D2AI_MODULE_URL :: string where
  "D2AI_MODULE_URL = ''https://raw.githubusercontent.com/DestinyItemManager/d2ai-module/master''"

definition d2ai_url :: "string \<Rightarrow> string" where
  "d2ai_url filename = D2AI_MODULE_URL @ ''/'' @ filename"

definition fetchD2AIFile :: "(string \<Rightarrow> 'a http) \<Rightarrow> string \<Rightarrow> fetch_error + 'a" where
  "fetchD2AIFile net filename =
     (case net (d2ai_url filename) of
        Rejected \<Rightarrow> Inl FetchRejected
      | Reply ok body \<Rightarrow>
          if \<not> ok then Inl (HttpNotOk filename)
          else (case body of None \<Rightarrow> Inl JsonRejected | Some v \<Rightarrow> Inr v))"

definition emptyD2AIData :: D2AIData where
  "emptyD2AIData =
     \<lparr>watermarkToSeason = Map.empty, watermarkToEvent = Map.empty, sourceToSeason = Map.empty,
      seasons = Map.empty, events = Map.empty, craftableHashes = []\<rparr>"

definition d2ai_requests :: "Request list" where
  "d2ai_requests =
     map (\<lambda>f. D2AIRequest (d2ai_url f))
       [''watermark-to-season.json'', ''watermark-to-event.json'', ''source-to-season-v2.json'',
        ''seasons.json'', ''events.json'', ''craftable-hashes.json'']"

text \<open>
  \<open>loadD2AIData\<close> returns its result, the database it leaves and the requests it issued.
  \<^verbatim>\<open>Promise.all\<close> starts all six fetches and rejects as soon as one of them rejects;
  the rejection lands in the \<^verbatim>\<open>catch\<close> block, which is past the
  \<^verbatim>\<open>db.helperData.put\<close>.
\<close>

definition loadD2AIData :: "Remote \<Rightarrow> Database \<Rightarrow> D2AIData \<times> Database \<times> Request list" where
  "loadD2AIData net db =
     (case helperData_d2ai db of
        Some cached \<Rightarrow> (cached, db, [])
      | None \<Rightarrow>
          (case fetchD2AIFile (lookup_files net) ''watermark-to-season.json'' of
             Inl e \<Rightarrow> (emptyD2AIData, db, d2ai_requests)
           | Inr wts \<Rightarrow>
          (case fetchD2AIFile (lookup_files net) ''watermark-to-event.json'' of
             Inl e \<Rightarrow> (emptyD2AIData, db, d2ai_requests)
           | Inr wte \<Rightarrow>
          (case fetchD2AIFile (lookup_files net) ''source-to-season-v2.json'' of
             Inl e \<Rightarrow> (emptyD2AIData, db, d2ai_requests)
           | Inr sts \<Rightarrow>
          (case fetchD2AIFile (lookup_files net) ''seasons.json'' of
             Inl e \<Rightarrow> (emptyD2AIData, db, d2ai_requests)
           | Inr ss \<Rightarrow>
          (case fetchD2AIFile (lookup_files net) ''events.json'' of
             Inl e \<Rightarrow> (emptyD2AIData, db, d2ai_requests)
           | Inr es \<Rightarrow>
          (case fetchD2AIFile (hash_files net) ''craftable-hashes.json'' of
             Inl e \<Rightarrow> (emptyD2AIData, db, d2ai_requests)
           | Inr ch \<Rightarrow>
               (let data = \<lparr>watermarkToSeason = wts, watermarkToEvent = wte,
                            sourceToSeason = sts, seasons = ss, events = es,
                            craftableHashes = ch\<rparr>
                in (data, db\<lparr>helperData_d2ai := Some data\<rparr>, d2ai_requests)))))))))"

section \<open>Manifest sync protocol\<close>

text \<open>
  \<open>fetchManifestMetadata\<close> and \<open>fetchManifestTables\<close> are the API module
  (\<^verbatim>\<open>src/unnamed/part_009\<close>); \<open>extractDamageTypeIcons\<close>, \<open>loadManifest\<close> and
  \<open>forceManifestRefresh\<close> are the loader (the first file of \<^verbatim>\<open>src/unnamed/part_007\<close>).
\<close>

definition MANIFEST_URL :: string where
  "MANIFEST_URL = ''https://www.bungie.net/Platform/Destiny2/Manifest/''"

definition fetchManifestMetadata :: "Remote \<Rightarrow> fetch_error + ManifestMetadata" where
  "fetchManifestMetadata net =
     (case manifest_endpoint net of
        Rejected \<Rightarrow> Inl FetchRejected
      | Reply ok body \<Rightarrow>
          if \<not> ok then Inl (HttpNotOk ''manifest metadata'')
          else (case body of
                  None \<Rightarrow> Inl JsonRejected
                | Some doc \<Rightarrow>
                    (case doc_Response doc of
                       None \<Rightarrow> Inl MissingResponseField
                     | Some r \<Rightarrow>
                         Inr \<lparr>meta_version = resp_version r, meta_paths = resp_paths_en r\<rparr>)))"

text \<open>
  The callback \<open>fetchManifestTables\<close> maps over the table names: the table read from
  its path, or the error thrown, and the request it issued if it got that far
  (\<^verbatim>\<open>!path\<close> holds for a missing and for an empty path). When several tables
  fail, \<^verbatim>\<open>Promise.all\<close> rejects with whichever rejection comes first in time; the
  model reports the first in table order.
\<close>

definition fetchTable ::
  "(string \<Rightarrow> 'a http) \<Rightarrow> (string \<rightharpoonup> string) \<Rightarrow> string \<Rightarrow> (fetch_error + 'a) \<times> Request list" where
  "fetchTable net paths tableName =
     (case paths tableName of
        None \<Rightarrow> (Inl (MissingPath tableName), [])
      | Some path \<Rightarrow>
          if path = [] then (Inl (MissingPath tableName), [])
          else (case net (BUNGIE_NET @ path) of
                  Rejected \<Rightarrow> Inl FetchRejected
                | Reply ok body \<Rightarrow>
                    if \<not> ok then Inl (HttpNotOk tableName)
                    else (case body of None \<Rightarrow> Inl JsonRejected | Some v \<Rightarrow> Inr v),
                [TableRequest (BUNGIE_NET @ path)]))"

definition fetchManifestTables ::
  "Remote \<Rightarrow> (string \<rightharpoonup> string) \<Rightarrow> (fetch_error + ManifestTables) \<times> Request list" where
  "fetchManifestTables net paths =
     (let (r1, l1) = fetchTable (item_tables net) paths ''DestinyInventoryItemDefinition'';
          (r2, l2) = fetchTable (plugset_tables net) paths ''DestinyPlugSetDefinition'';
          (r3, l3) = fetchTable (collectible_tables net) paths ''DestinyCollectibleDefinition'';
          (r4, l4) = fetchTable (damagetype_tables net) paths ''DestinyDamageTypeDefinition'';
          (r5, l5) = fetchTable (sockettype_tables net) paths ''DestinySocketTypeDefinition'';
          (r6, l6) = fetchTable (socketcategory_tables net) paths ''DestinySocketCategoryDefinition'';
          log = l1 @ l2 @ l3 @ l4 @ l5 @ l6
      in (case r1 of Inl e \<Rightarrow> (Inl e, log) | Inr t1 \<Rightarrow>
         (case r2 of Inl e \<Rightarrow> (Inl e, log) | Inr t2 \<Rightarrow>
         (case r3 of Inl e \<Rightarrow> (Inl e, log) | Inr t3 \<Rightarrow>
         (case r4 of Inl e \<Rightarrow> (Inl e, log) | Inr t4 \<Rightarrow>
         (case r5 of Inl e \<Rightarrow> (Inl e, log) | Inr t5 \<Rightarrow>
         (case r6 of Inl e \<Rightarrow> (Inl e, log) | Inr t6 \<Rightarrow>
            (Inr \<lparr>DestinyInventoryItemDefinition = t1,
                  DestinyPlugSetDefinition = t2,
                  DestinyCollectibleDefinition = t3,
                  DestinyDamageTypeDefinition = t4,
                  DestinySocketTypeDefinition = t5,
                  DestinySocketCategoryDefinition = t6\<rparr>, log))))))))"

definition extractDamageTypeIcons :: "ManifestTables \<Rightarrow> (nat \<rightharpoonup> string)" where
  "extractDamageTypeIcons tables =
     fold (\<lambda>entry icons.
             case entry of
               None \<Rightarrow> icons
             | Some damageTypeDef \<Rightarrow>
                 (case prefixBungieOrNull (dt_icon damageTypeDef) of
                    None \<Rightarrow> icons
                  | Some iconPath \<Rightarrow>
                      if iconPath \<noteq> [] then icons(enumValue damageTypeDef \<mapsto> iconPath) else icons))
          (Object_values (DestinyDamageTypeDefinition tables)) Map.empty"

record ManifestLoadResult =
  res_version :: string
  weaponCount :: nat
  cached :: bool

text \<open>
  \<open>loadManifest\<close> returns its result (or the error it throws), the database it leaves and
  the requests it issued. In the download branch \<^verbatim>\<open>Promise.all\<close> runs
  \<open>fetchManifestTables\<close> and \<open>loadD2AIData\<close> side by side; only the second touches the
  database, so its effect stays when the first one fails.
\<close>

definition loadManifest ::
  "Remote \<Rightarrow> Database \<Rightarrow> (fetch_error + ManifestLoadResult) \<times> Database \<times> Request list" where
  "loadManifest net db =
     (case fetchManifestMetadata net of
        Inl e \<Rightarrow> (Inl e, db, [MetadataRequest MANIFEST_URL])
      | Inr meta \<Rightarrow>
          (let remoteVersion = meta_version meta;
               paths = meta_paths meta;
               cachedVersion = metadata_version db
           in if cachedVersion = Some remoteVersion then
                (let count = table_count (weaponsConcise db)
                 in (Inr \<lparr>res_version = remoteVersion, weaponCount = count, cached = True\<rparr>,
                     db, [MetadataRequest MANIFEST_URL]))
              else
                (let (tablesResult, log1) = fetchManifestTables net paths;
                     (d2aiData, db1, log2) = loadD2AIData net db;
                     log = MetadataRequest MANIFEST_URL # log1 @ log2
                 in case tablesResult of
                      Inl e \<Rightarrow> (Inl e, db1, log)
                    | Inr tables \<Rightarrow>
                        (let ws = transformWeapons tables d2aiData;
                             damageTypeIcons = extractDamageTypeIcons tables;
                             db2 = db1\<lparr>weapons := bulkPut wf_hash (full ws) [],
                                       weaponsConcise := bulkPut wc_hash (concise ws) [],
                                       metadata_version := Some remoteVersion,
                                       helperData_damageTypeIcons := Some damageTypeIcons\<rparr>
                         in (Inr \<lparr>res_version = remoteVersion,
                                  weaponCount = length (full ws),
                                  cached = False\<rparr>,
                             db2, log)))))"

definition forceManifestRefresh ::
  "Remote \<Rightarrow> Database \<Rightarrow> (fetch_error + ManifestLoadResult) \<times> Database \<times> Request list" where
  "forceManifestRefresh net db = loadManifest net (db\<lparr>metadata_version := None\<rparr>)"

section \<open>Vocabulary of the statements\<close>

text \<open>
  The three perk loops and \<open>getFixedPerk\<close> all skip a plug hash with the same test
  (\<^verbatim>\<open>if (!plugDef || !isValidPerk(plugDef)) continue\<close>); \<open>resolvePerk\<close> names the
  definition a hash resolves to when it passes that test.
\<close>

definition resolvePerk :: "ManifestTables \<Rightarrow> hash \<Rightarrow> ItemDef option" where
  "resolvePerk tables h =
     (case table_get (DestinyInventoryItemDefinition tables) (String_of h) of
        None \<Rightarrow> None
      | Some plugDef \<Rightarrow> if isValidPerk plugDef then Some plugDef else None)"

text \<open>
  The plug hashes a socket offers to its column, by the branch of \<open>getPerks\<close> it takes:
  none for a tracker; the pool's hashes and the socket's curated hashes when its plug
  set resolves, none when it does not; without a plug set the hashes of its own plug
  list, or, when that list is empty, its single initial plug unless that is 0.
\<close>

definition candidateHashes :: "ManifestTables \<Rightarrow> SocketEntry \<Rightarrow> hash list" where
  "candidateHashes tables socket =
     (if socketTypeHash socket = SocketTypeHashes_Tracker then []
      else
        (case (case randomizedPlugSetHash socket of
                 Some h \<Rightarrow> Some h
               | None \<Rightarrow> reusablePlugSetHash socket) of
           None \<Rightarrow>
             if se_reusablePlugItems socket \<noteq> []
             then map sp_plugItemHash (se_reusablePlugItems socket)
             else if singleInitialItemHash socket = 0 then []
             else [singleInitialItemHash socket]
         | Some plugSetHash \<Rightarrow>
             (case table_get (DestinyPlugSetDefinition tables) (String_of plugSetHash) of
                None \<Rightarrow> []
              | Some plugSet \<Rightarrow>
                  map ps_plugItemHash (ps_reusablePlugItems plugSet) @
                  map sp_plugItemHash (se_reusablePlugItems socket))))"

text \<open>
  The full record \<open>transformWeapons\<close> pushes for an item, if its build returns.
\<close>

definition builtRecord :: "ManifestTables \<Rightarrow> D2AIData \<Rightarrow> ItemDef \<Rightarrow> WeaponFull option" where
  "builtRecord tables d2aiData itemDef =
     (case buildWeaponFull tables d2aiData (collectibleLookup tables) itemDef of
        Inl e \<Rightarrow> None
      | Inr weaponFull \<Rightarrow> Some weaponFull)"

text \<open>The first hit of an ordered list of lookups.\<close>

fun firstSome :: "'a option list \<Rightarrow> 'a option" where
  "firstSome [] = None"
| "firstSome (None # xs) = firstSome xs"
| "firstSome (Some x # xs) = Some x"

section \<open>Concrete inputs\<close>

definition example_concise :: WeaponConcise where
  "example_concise =
     \<lparr>wc_hash = 7, wc_name = ''Gun'', wc_tierType = 5, wc_itemType = ''Auto Rifle'',
      wc_damageType = 1, wc_slot = 0, wc_ammoType = 1, wc_source = None, wc_iconSrc = None,
      wc_watermarkSrc = None, wc_watermarkFeaturedSrc = None, wc_isCraftable = False,
      wc_isAdept = False, wc_isHolofoil = False, wc_isFeatured = False, wc_season = None,
      wc_event = None, wc_frame = [], wc_perks = []\<rparr>"

text \<open>A database holding version \<^verbatim>\<open>v1\<close>, one concise record and no auxiliary cache.\<close>

definition example_db :: Database where
  "example_db =
     \<lparr>metadata_version = Some ''v1'', helperData_d2ai = None, helperData_damageTypeIcons = None,
      weapons = [], weaponsConcise = [(7, example_concise)]\<rparr>"

text \<open>
  A remote that publishes version \<^verbatim>\<open>v1\<close>, serves every auxiliary file except
  \<^verbatim>\<open>seasons.json\<close> (that fetch rejects) and no table.
\<close>

definition example_remote :: Remote where
  "example_remote =
     \<lparr>manifest_endpoint =
        Reply True (Some \<lparr>doc_Response = Some \<lparr>resp_version = ''v1'', resp_paths_en = Map.empty\<rparr>\<rparr>),
      item_tables = (\<lambda>u. Rejected),
      plugset_tables = (\<lambda>u. Rejected),
      collectible_tables = (\<lambda>u. Rejected),
      damagetype_tables = (\<lambda>u. Rejected),
      sockettype_tables = (\<lambda>u. Rejected),
      socketcategory_tables = (\<lambda>u. Rejected),
      lookup_files = (\<lambda>u. if u = d2ai_url ''seasons.json'' then Rejected
                            else Reply True (Some [''/w.png'' \<mapsto> 5])),
      hash_files = (\<lambda>u. Reply True (Some [7]))\<rparr>"


text \<open>
  A small manifest: the weapon 7 with an intrinsic socket and five perk sockets (a pooled
  socket, a tracker, a socket with its own plug list, a fixed origin trait and a pooled
  socket whose plugs are all filtered), its redacted twin 8, and the plugs 11 to 21, of
  which 12 is enhanced, 15 has no name and 16 is an empty-socket placeholder; hash 18
  has no definition.
\<close>

definition blank_item :: ItemDef where
  "blank_item =
     \<lparr>item_hash = 0,
      displayProperties = \<lparr>dp_name = [], dp_description = [], dp_icon = None\<rparr>,
      flavorText = [], itemTypeDisplayName = [], itemCategoryHashes = None, inventory = None,
      equippingBlock = None, defaultDamageTypeHash = None, iconWatermark = Some [],
      iconWatermarkShelved = Some [], iconWatermarkFeatured = None, screenshot = None,
      secondaryIcon = None, isAdept = None, isHolofoil = None, isFeaturedItem = None,
      redacted = False, plug = None, sockets = None\<rparr>"

definition plug_item :: "hash \<Rightarrow> string \<Rightarrow> ItemDef" where
  "plug_item h n =
     blank_item\<lparr>item_hash := h,
                displayProperties := \<lparr>dp_name = n, dp_description = [], dp_icon = None\<rparr>,
                itemTypeDisplayName := ''Trait''\<rparr>"

definition blank_socket :: SocketEntry where
  "blank_socket =
     \<lparr>socketTypeHash = 0, singleInitialItemHash = 0, se_reusablePlugItems = [],
      randomizedPlugSetHash = None, reusablePlugSetHash = None\<rparr>"

definition example_sockets :: "SocketEntry list" where
  "example_sockets =
     [blank_socket\<lparr>singleInitialItemHash := 20\<rparr>,
      blank_socket\<lparr>se_reusablePlugItems :=
                     [\<lparr>sp_plugItemHash = 11\<rparr>, \<lparr>sp_plugItemHash = 17\<rparr>,
                      \<lparr>sp_plugItemHash = 18\<rparr>, \<lparr>sp_plugItemHash = 11\<rparr>],
                   randomizedPlugSetHash := Some 100, reusablePlugSetHash := Some 101\<rparr>,
      blank_socket\<lparr>socketTypeHash := 1282012138, singleInitialItemHash := 13\<rparr>,
      blank_socket\<lparr>singleInitialItemHash := 13,
                   se_reusablePlugItems :=
                     [\<lparr>sp_plugItemHash = 13\<rparr>, \<lparr>sp_plugItemHash = 13\<rparr>,
                      \<lparr>sp_plugItemHash = 16\<rparr>]\<rparr>,
      blank_socket\<lparr>singleInitialItemHash := 21\<rparr>,
      blank_socket\<lparr>reusablePlugSetHash := Some 101\<rparr>]"

definition example_weapon :: ItemDef where
  "example_weapon =
     blank_item\<lparr>item_hash := 7,
                displayProperties :=
                  \<lparr>dp_name = ''Test Rifle'', dp_description = [], dp_icon = Some ''/i.png''\<rparr>,
                itemTypeDisplayName := ''Auto Rifle'',
                itemCategoryHashes := Some [1, 5],
                inventory := Some \<lparr>bucketTypeHash = Some 1498876634, inv_tierType = Some 5\<rparr>,
                iconWatermarkShelved := Some ''/w.png'',
                sockets :=
                  Some \<lparr>socketEntries = example_sockets,
                        socketCategories =
                          [\<lparr>socketCategoryHash = 3956125808, socketIndexes = [0]\<rparr>,
                           \<lparr>socketCategoryHash = 4241085061, socketIndexes = [1, 2, 3, 4, 5]\<rparr>]\<rparr>\<rparr>"

definition example_redacted :: ItemDef where
  "example_redacted = example_weapon\<lparr>item_hash := 8, redacted := True\<rparr>"

definition example_pool :: PlugSetDef where
  "example_pool =
     \<lparr>ps_reusablePlugItems =
        [\<lparr>ps_plugItemHash = 11, currentlyCanRoll = True\<rparr>,
         \<lparr>ps_plugItemHash = 13, currentlyCanRoll = True\<rparr>,
         \<lparr>ps_plugItemHash = 14, currentlyCanRoll = False\<rparr>,
         \<lparr>ps_plugItemHash = 12, currentlyCanRoll = True\<rparr>,
         \<lparr>ps_plugItemHash = 15, currentlyCanRoll = True\<rparr>]\<rparr>"

definition example_tables :: ManifestTables where
  "example_tables =
     \<lparr>DestinyInventoryItemDefinition =
        [(''7'', Some example_weapon),
         (''8'', Some example_redacted),
         (''11'', Some (plug_item 11 ''Rampage'')),
         (''12'', Some ((plug_item 12 ''Rampage Enhanced'')
                    \<lparr>inventory := Some \<lparr>bucketTypeHash = None, inv_tierType = Some 3\<rparr>\<rparr>)),
         (''13'', Some (plug_item 13 ''Kill Clip'')),
         (''14'', Some (plug_item 14 ''Outlaw'')),
         (''15'', Some (plug_item 15 [])),
         (''16'', Some ((plug_item 16 ''Empty Socket'')
                    \<lparr>plug := Some \<lparr>plugCategoryHash = Some 3618704867\<rparr>\<rparr>)),
         (''17'', Some (plug_item 17 ''Curated Special'')),
         (''20'', Some (plug_item 20 ''Adaptive Frame'')),
         (''21'', Some ((plug_item 21 ''Origin'')\<lparr>itemCategoryHashes := Some [1052191891]\<rparr>))],
      DestinyPlugSetDefinition =
        [(''100'', Some example_pool),
         (''101'', Some \<lparr>ps_reusablePlugItems =
                        [\<lparr>ps_plugItemHash = 12, currentlyCanRoll = True\<rparr>,
                         \<lparr>ps_plugItemHash = 16, currentlyCanRoll = True\<rparr>]\<rparr>)],
      DestinyCollectibleDefinition =
        [(''500'', Some \<lparr>col_itemHash = 7, col_sourceHash = Some 900\<rparr>)],
      DestinyDamageTypeDefinition = [],
      DestinySocketTypeDefinition = [],
      DestinySocketCategoryDefinition = []\<rparr>"

definition example_d2ai :: D2AIData where
  "example_d2ai =
     \<lparr>watermarkToSeason = [''/w.png'' \<mapsto> 5], watermarkToEvent = Map.empty,
      sourceToSeason = [''900'' \<mapsto> 4], seasons = Map.empty, events = [''7'' \<mapsto> 2],
      craftableHashes = [7]\<rparr>"

text \<open>A pool that lists plug 11 twice, once rollable and once retired.\<close>

definition dup_pool :: PlugSetDef where
  "dup_pool =
     \<lparr>ps_reusablePlugItems =
        [\<lparr>ps_plugItemHash = 11, currentlyCanRoll = True\<rparr>,
         \<lparr>ps_plugItemHash = 11, currentlyCanRoll = False\<rparr>]\<rparr>"

definition dup_weapon :: ItemDef where
  "dup_weapon =
     example_weapon\<lparr>sockets :=
       Some \<lparr>socketEntries = [blank_socket\<lparr>randomizedPlugSetHash := Some 102\<rparr>],
             socketCategories = [\<lparr>socketCategoryHash = 4241085061, socketIndexes = [0]\<rparr>]\<rparr>\<rparr>"

definition dup_tables :: ManifestTables where
  "dup_tables = example_tables\<lparr>DestinyPlugSetDefinition := [(''102'', Some dup_pool)]\<rparr>"

text \<open>The weapon 7 without its \<^verbatim>\<open>iconWatermark\<close> field, alone in the item table.\<close>

definition no_watermark_weapon :: ItemDef where
  "no_watermark_weapon = example_weapon\<lparr>iconWatermark := None\<rparr>"

definition no_watermark_tables :: ManifestTables where
  "no_watermark_tables =
     example_tables\<lparr>DestinyInventoryItemDefinition := [(''7'', Some no_watermark_weapon)]\<rparr>"

text \<open>
  A weapon without watermark whose collectible carries the source hash 0, and a
  source-to-season file with an entry for \<^verbatim>\<open>"0"\<close>.
\<close>

definition zero_source_weapon :: ItemDef where
  "zero_source_weapon =
     example_weapon\<lparr>item_hash := 30, iconWatermarkShelved := Some [], sockets := None\<rparr>"

definition zero_source_tables :: ManifestTables where
  "zero_source_tables =
     \<lparr>DestinyInventoryItemDefinition = [(''30'', Some zero_source_weapon)],
      DestinyPlugSetDefinition = [],
      DestinyCollectibleDefinition =
        [(''600'', Some \<lparr>col_itemHash = 30, col_sourceHash = Some 0\<rparr>)],
      DestinyDamageTypeDefinition = [],
      DestinySocketTypeDefinition = [],
      DestinySocketCategoryDefinition = []\<rparr>"

definition zero_source_d2ai :: D2AIData where
  "zero_source_d2ai = emptyD2AIData\<lparr>sourceToSeason := [''0'' \<mapsto> 5]\<rparr>"


section \<open>The sync protocol on an unchanged version\<close>

text \<open>
  C1. When the metadata fetch succeeds and the persisted version token equals the fetched
  version, \<open>loadManifest\<close> returns \<open>{version, weaponCount, cached: true}\<close> with
  \<open>weaponCount\<close> the number of persisted concise records; the only request issued is the
  metadata request (no table request, no auxiliary-file request), and the database is
  returned as it was.
\<close>

theorem loadManifest_cached:
  assumes "fetchManifestMetadata net = Inr meta"
      and "metadata_version db = Some (meta_version meta)"
  shows "loadManifest net db =
           (Inr \<lparr>res_version = meta_version meta,
                 weaponCount = table_count (weaponsConcise db),
                 cached = True\<rparr>,
            db, [MetadataRequest MANIFEST_URL])"
  using assms by (simp add: loadManifest_def)

theorem loadManifest_cached_witness:
  "loadManifest example_remote example_db =
     (Inr \<lparr>res_version = ''v1'', weaponCount = 1, cached = True\<rparr>,
      example_db, [MetadataRequest MANIFEST_URL])"
  using loadManifest_cached [of example_remote
      "\<lparr>meta_version = ''v1'', meta_paths = Map.empty\<rparr>" example_db]
  by (simp add: fetchManifestMetadata_def example_remote_def example_db_def table_count_def)

section \<open>The auxiliary loader under fetch failures\<close>

lemma fetch_seasons_rejected:
  "fetchD2AIFile (lookup_files example_remote) ''seasons.json'' = Inl FetchRejected"
  by (simp add: fetchD2AIFile_def example_remote_def)

lemma fetch_watermark_to_season_ok:
  "fetchD2AIFile (lookup_files example_remote) ''watermark-to-season.json''
     = Inr [''/w.png'' \<mapsto> 5]"
  by (simp add: fetchD2AIFile_def example_remote_def d2ai_url_def)

text \<open>
  C3 (as amended). With no cached auxiliary data, \<open>loadD2AIData\<close> always returns a result:
  the six fetched values when all six fetches succeed, and the all-empty default when at
  least one of them fails; in that case every map and the set are empty, also those whose
  file was fetched successfully.
\<close>

theorem loadD2AIData_all_or_nothing:
  assumes "helperData_d2ai db = None"
  shows "fst (loadD2AIData net db) =
           (if isl (fetchD2AIFile (lookup_files net) ''watermark-to-season.json'') \<or>
               isl (fetchD2AIFile (lookup_files net) ''watermark-to-event.json'') \<or>
               isl (fetchD2AIFile (lookup_files net) ''source-to-season-v2.json'') \<or>
               isl (fetchD2AIFile (lookup_files net) ''seasons.json'') \<or>
               isl (fetchD2AIFile (lookup_files net) ''events.json'') \<or>
               isl (fetchD2AIFile (hash_files net) ''craftable-hashes.json'')
            then emptyD2AIData
            else \<lparr>watermarkToSeason =
                    projr (fetchD2AIFile (lookup_files net) ''watermark-to-season.json''),
                  watermarkToEvent =
                    projr (fetchD2AIFile (lookup_files net) ''watermark-to-event.json''),
                  sourceToSeason =
                    projr (fetchD2AIFile (lookup_files net) ''source-to-season-v2.json''),
                  seasons = projr (fetchD2AIFile (lookup_files net) ''seasons.json''),
                  events = projr (fetchD2AIFile (lookup_files net) ''events.json''),
                  craftableHashes =
                    projr (fetchD2AIFile (hash_files net) ''craftable-hashes.json'')\<rparr>)"
  using assms by (auto simp: loadD2AIData_def Let_def split: sum.splits)

theorem loadD2AIData_all_or_nothing_witness:
  "helperData_d2ai example_db = None \<and>
   fst (loadD2AIData example_remote example_db) = emptyD2AIData"
  using loadD2AIData_all_or_nothing [of example_db example_remote]
  by (simp add: fetch_seasons_rejected example_db_def)

text \<open>
  The claim as the spec words it fails: \<^verbatim>\<open>watermark-to-season.json\<close> is fetched
  successfully and maps \<^verbatim>\<open>/w.png\<close> to 5, only \<^verbatim>\<open>seasons.json\<close> fails, and the
  returned watermark map has no entry for \<^verbatim>\<open>/w.png\<close>.
\<close>

theorem loadD2AIData_per_file_fallback_counterexample:
  "helperData_d2ai example_db = None \<and>
   (case fetchD2AIFile (lookup_files example_remote) ''watermark-to-season.json'' of
      Inl e \<Rightarrow> None | Inr m \<Rightarrow> m ''/w.png'') = Some 5 \<and>
   watermarkToSeason (fst (loadD2AIData example_remote example_db)) ''/w.png'' = None"
  by (simp add: loadD2AIData_def fetchD2AIFile_def d2ai_url_def example_remote_def
      example_db_def emptyD2AIData_def)

text \<open>
  C10. With no cached auxiliary data, if any of the six fetches fails, \<open>loadD2AIData\<close>
  returns the all-empty default and leaves the database as it was (nothing is written
  under \<^verbatim>\<open>"d2ai"\<close>); a following call on the database it left issues the six requests
  again, whatever the remote then is.
\<close>

theorem loadD2AIData_failure_leaves_cache:
  assumes "helperData_d2ai db = None"
      and "isl (fetchD2AIFile (lookup_files net) ''watermark-to-season.json'') \<or>
           isl (fetchD2AIFile (lookup_files net) ''watermark-to-event.json'') \<or>
           isl (fetchD2AIFile (lookup_files net) ''source-to-season-v2.json'') \<or>
           isl (fetchD2AIFile (lookup_files net) ''seasons.json'') \<or>
           isl (fetchD2AIFile (lookup_files net) ''events.json'') \<or>
           isl (fetchD2AIFile (hash_files net) ''craftable-hashes.json'')"
  shows "loadD2AIData net db = (emptyD2AIData, db, d2ai_requests) \<and>
         snd (snd (loadD2AIData net' (fst (snd (loadD2AIData net db))))) = d2ai_requests"
proof -
  have first: "loadD2AIData net db = (emptyD2AIData, db, d2ai_requests)"
    using assms by (auto simp: loadD2AIData_def split: sum.splits)
  have again: "snd (snd (loadD2AIData net' db)) = d2ai_requests"
    using assms(1) by (simp add: loadD2AIData_def Let_def split: sum.splits)
  show ?thesis using first again by simp
qed

theorem loadD2AIData_failure_leaves_cache_witness:
  "helperData_d2ai example_db = None \<and>
   isl (fetchD2AIFile (lookup_files example_remote) ''seasons.json'') \<and>
   loadD2AIData example_remote example_db = (emptyD2AIData, example_db, d2ai_requests) \<and>
   snd (snd (loadD2AIData example_remote (fst (snd (loadD2AIData example_remote example_db)))))
     = d2ai_requests"
proof -
  have a: "helperData_d2ai example_db = None" by (simp add: example_db_def)
  have b: "isl (fetchD2AIFile (lookup_files example_remote) ''seasons.json'')"
    by (simp add: fetch_seasons_rejected)
  show ?thesis
    using a b loadD2AIData_failure_leaves_cache [of example_db example_remote example_remote]
    by simp
qed

section \<open>Loops as list functions\<close>

lemma fold_append_concat:
  assumes "\<And>x acc. f x acc = acc @ g x"
  shows "fold f xs acc = acc @ concat (map g xs)"
proof (induction xs arbitrary: acc)
  case Nil
  then show ?case by simp
next
  case (Cons x xs)
  have "fold f (x # xs) acc = fold f xs (f x acc)" by simp
  also have "\<dots> = f x acc @ concat (map g xs)" by (rule Cons.IH)
  also have "\<dots> = acc @ concat (map g (x # xs))" by (simp add: assms)
  finally show ?case .
qed

lemma concat_option_map_filter:
  "concat (map (\<lambda>x. case f x of None \<Rightarrow> [] | Some y \<Rightarrow> [y]) xs) = List.map_filter f xs"
  by (induction xs) (simp_all add: List.map_filter_simps split: option.splits)

lemma map_filter_mem:
  "y \<in> set (List.map_filter f xs) \<Longrightarrow> \<exists>x \<in> set xs. f x = Some y"
  by (auto simp: List.map_filter_def)

lemma fold_invariant:
  assumes "P acc" and "\<And>x a. x \<in> set xs \<Longrightarrow> P a \<Longrightarrow> P (f x a)"
  shows "P (fold f xs acc)"
  using assms by (induction xs arbitrary: acc) simp_all

lemma firstSome_Cons:
  "firstSome (x # xs) = (case x of None \<Rightarrow> firstSome xs | Some y \<Rightarrow> Some y)"
  by (cases x) simp_all

lemma fold_Set_add_set: "set (fold (\<lambda>x s. Set_add s x) xs acc) = set acc \<union> set xs"
  by (induction xs arbitrary: acc) (auto simp: Set_add_def)

lemma fold_Set_add_distinct: "distinct acc \<Longrightarrow> distinct (fold (\<lambda>x s. Set_add s x) xs acc)"
  by (induction xs arbitrary: acc) (auto simp: Set_add_def)

section \<open>The concrete inputs, evaluated\<close>

lemma String_of_examples:
  "String_of 0 = ''0''" "String_of 7 = ''7''" "String_of 8 = ''8''" "String_of 11 = ''11''"
  "String_of 12 = ''12''" "String_of 13 = ''13''" "String_of 14 = ''14''"
  "String_of 15 = ''15''" "String_of 16 = ''16''" "String_of 17 = ''17''"
  "String_of 18 = ''18''" "String_of 20 = ''20''" "String_of 21 = ''21''"
  "String_of 30 = ''30''" "String_of 100 = ''100''" "String_of 101 = ''101''"
  "String_of 102 = ''102''" "String_of 900 = ''900''"
  by (simp_all add: String_of.simps digit_char_def)

lemmas example_defs = blank_item_def plug_item_def blank_socket_def example_sockets_def
  example_weapon_def example_redacted_def example_pool_def example_tables_def example_d2ai_def

lemmas eval_defs = getPerks_step_def getPerksFromPlugSet_def getFixedPerk_def
  getPerksFromReusablePlugItems_def createPerk_def isValidPerk_def isEnhancedPerk_def
  isEmptyPlug_def getCuratedPlugHashes_def Set_add_def Set_has_def
  table_get_def String_of_examples prefixBungieOrNull_def
  SocketTypeHashes_Tracker_def
  EMPTY_PLUG_CATEGORY_HASHES_def EmptyPlugCategoryHashes_EmptySocketPlug_def
  EmptyPlugCategoryHashes_EmptyModSocketPlug_def ENHANCED_PERK_TIER_TYPE_def

lemmas isWeapon_defs = isWeapon_def Let_def
  ItemCategoryHashes_Weapon_def ItemCategoryHashes_Dummies_def WEAPON_BUCKET_HASHES_def
  BucketHashes_KineticWeapons_def BucketHashes_EnergyWeapons_def BucketHashes_PowerWeapons_def

lemma ex_sockets:
  "getSocketsByCategory example_weapon SocketCategoryHashes_WeaponPerks =
     [example_sockets ! 1, example_sockets ! 2, example_sockets ! 3, example_sockets ! 4,
      example_sockets ! 5]"
  by (simp add: getSocketsByCategory_def array_at_def example_weapon_def blank_item_def
     SocketCategoryHashes_WeaponPerks_def example_sockets_def)

lemma ex_weaponsOf: "weaponsOf example_tables = [example_weapon]"
  by (simp add: weaponsOf_def Object_values_def List.map_filter_simps isWeapon_defs
      example_tables_def example_weapon_def example_redacted_def plug_item_def blank_item_def)

lemma ex_isWeapon: "isWeapon example_weapon" "\<not> isWeapon example_redacted"
  by (simp_all add: isWeapon_defs example_weapon_def example_redacted_def blank_item_def)

lemma ex_item_hash: "item_hash example_weapon = 7"
  by (simp add: example_weapon_def blank_item_def)

lemma ex_columns:
  "map (map (\<lambda>p. (perk_hash p, perk_name p, isCurated p, curatedExclusive p, isDeprecated p)))
     (getPerks example_weapon example_tables) =
     [[(11, ''Rampage'', True, False, False), (13, ''Kill Clip'', False, False, False),
       (14, ''Outlaw'', False, False, True), (17, ''Curated Special'', True, True, False)],
      [(13, ''Kill Clip'', True, False, False)],
      [(21, ''Origin'', True, True, False)]]"
  unfolding getPerks_def ex_sockets
  by (simp add: eval_defs example_defs)

lemma ex_column_names:
  "map (map perk_name) (getPerks example_weapon example_tables) =
     [[''Rampage'', ''Kill Clip'', ''Outlaw'', ''Curated Special''], [''Kill Clip''], [''Origin'']]"
proof -
  have "map (map perk_name) (getPerks example_weapon example_tables) =
     map (map (\<lambda>t. fst (snd t)))
       (map (map (\<lambda>p. (perk_hash p, perk_name p, isCurated p, curatedExclusive p, isDeprecated p)))
          (getPerks example_weapon example_tables))"
    by (simp add: comp_def)
  then show ?thesis by (simp add: ex_columns)
qed

lemma ex_lengths:
  "length (getPerks example_weapon example_tables) = 3"
  "length (getPerks example_weapon example_tables ! 0) = 4"
  using arg_cong [OF ex_columns, of length]
        arg_cong [OF ex_columns, of "\<lambda>xs. length (xs ! 0)"] by simp_all

lemma ex_pool_column:
  "map (\<lambda>p. (perk_hash p, isCurated p, curatedExclusive p, isDeprecated p))
     (getPerksFromPlugSet (example_sockets ! 1) example_pool example_tables) =
     [(11, True, False, False), (13, False, False, False),
      (14, False, False, True), (17, True, True, False)]"
  by (simp add: eval_defs example_defs)

lemma ex_frame:
  "map_option frame_name (getFrame example_weapon example_tables) = Some ''Adaptive Frame''"
  by (simp add: getFrame_def getSocketsByCategory_def array_at_def table_get_def
      String_of_examples SocketCategoryHashes_IntrinsicTraits_def prefixBungieOrNull_def Let_def
      example_defs)

section \<open>The weapon record builder\<close>

lemma map_filter_mem_iff:
  "y \<in> set (List.map_filter f xs) \<longleftrightarrow> (\<exists>x \<in> set xs. f x = Some y)"
  by (induction xs) (auto simp: List.map_filter_simps split: option.splits)

lemma map_filter_all_Some:
  "\<forall>x \<in> set xs. f x \<noteq> None \<Longrightarrow> map Some (List.map_filter f xs) = map f xs"
  by (induction xs) (auto simp: List.map_filter_simps split: option.splits)

lemma transformWeapons_fold:
  "fold (\<lambda>itemDef acc.
           case buildWeaponFull tables d2aiData coll itemDef of
             Inl e \<Rightarrow> acc
           | Inr weaponFull \<Rightarrow>
               \<lparr>full = full acc @ [weaponFull],
                concise = concise acc @ [toWeaponConcise weaponFull]\<rparr>)
        ws acc =
     \<lparr>full = full acc @
              List.map_filter
                (\<lambda>d. case buildWeaponFull tables d2aiData coll d of
                        Inl e \<Rightarrow> None | Inr w \<Rightarrow> Some w) ws,
      concise = concise acc @
                  map toWeaponConcise
                    (List.map_filter
                       (\<lambda>d. case buildWeaponFull tables d2aiData coll d of
                               Inl e \<Rightarrow> None | Inr w \<Rightarrow> Some w) ws)\<rparr>"
  by (induction ws arbitrary: acc) (simp_all add: List.map_filter_simps split: sum.splits)

lemma builtRecord_fun:
  "builtRecord tables d2aiData =
     (\<lambda>d. case buildWeaponFull tables d2aiData (collectibleLookup tables) d of
             Inl e \<Rightarrow> None | Inr w \<Rightarrow> Some w)"
  by (rule ext) (simp add: builtRecord_def)

lemma transformWeapons_full:
  "full (transformWeapons tables d2aiData) =
     List.map_filter (builtRecord tables d2aiData) (weaponsOf tables)"
  by (simp add: transformWeapons_def Let_def transformWeapons_fold builtRecord_fun)

lemma transformWeapons_concise:
  "concise (transformWeapons tables d2aiData) =
     map toWeaponConcise (full (transformWeapons tables d2aiData))"
  by (simp add: transformWeapons_def Let_def transformWeapons_fold)

lemma builtRecord_SomeD:
  assumes "builtRecord tables d2aiData itemDef = Some w"
  shows "wf_hash w = item_hash itemDef"
    and "wi_hash (wf_item w) = item_hash itemDef"
    and "wf_frame w = getFrame itemDef tables"
    and "wf_perks w = getPerks itemDef tables"
    and "extractWeaponItem itemDef tables d2aiData (collectibleLookup tables) = Inr (wf_item w)"
  using assms
  by (auto simp: builtRecord_def buildWeaponFull_def extractWeaponItem_def Let_def
      split: sum.splits)

lemma builtRecord_None_iff:
  "builtRecord tables d2aiData itemDef = None \<longleftrightarrow>
     iconWatermark itemDef = None \<or>
     (iconWatermark itemDef = Some [] \<and> iconWatermarkShelved itemDef = None)"
  by (auto simp: builtRecord_def buildWeaponFull_def extractWeaponItem_def getWatermark_def
      Let_def split: sum.splits option.splits if_splits)

lemma full_mem_built:
  "w \<in> set (full (transformWeapons tables d2aiData)) \<longleftrightarrow>
     (\<exists>itemDef \<in> set (weaponsOf tables). builtRecord tables d2aiData itemDef = Some w)"
  by (simp add: transformWeapons_full map_filter_mem_iff)

lemma weaponsOf_eq:
  "weaponsOf tables =
     filter isWeapon (List.map_filter (\<lambda>entry. entry)
        (Object_values (DestinyInventoryItemDefinition tables)))"
proof -
  have "List.map_filter
          (\<lambda>entry. case entry of None \<Rightarrow> None
                     | Some item \<Rightarrow> if isWeapon item then Some item else None) xs =
        filter isWeapon (List.map_filter (\<lambda>entry. entry) xs)" for xs
    by (induction xs) (simp_all add: List.map_filter_simps split: option.splits)
  then show ?thesis by (simp add: weaponsOf_def)
qed

lemma weaponsOf_mem:
  "itemDef \<in> set (weaponsOf tables) \<longleftrightarrow>
     Some itemDef \<in> set (Object_values (DestinyInventoryItemDefinition tables)) \<and>
     isWeapon itemDef"
  by (auto simp: weaponsOf_eq map_filter_mem_iff)

lemma ex_built: "builtRecord example_tables example_d2ai example_weapon \<noteq> None"
  by (simp add: builtRecord_None_iff example_weapon_def blank_item_def)

lemma ex_full:
  "full (transformWeapons example_tables example_d2ai) =
     [the (builtRecord example_tables example_d2ai example_weapon)]"
  using ex_built by (auto simp: transformWeapons_full ex_weaponsOf List.map_filter_simps)

lemma ex_built_fields:
  "wf_hash (the (builtRecord example_tables example_d2ai example_weapon)) = 7"
  "wi_hash (wf_item (the (builtRecord example_tables example_d2ai example_weapon))) = 7"
  "wf_frame (the (builtRecord example_tables example_d2ai example_weapon)) =
     getFrame example_weapon example_tables"
  "wf_perks (the (builtRecord example_tables example_d2ai example_weapon)) =
     getPerks example_weapon example_tables"
proof -
  obtain w where w: "builtRecord example_tables example_d2ai example_weapon = Some w"
    using ex_built by auto
  show "wf_hash (the (builtRecord example_tables example_d2ai example_weapon)) = 7"
    "wi_hash (wf_item (the (builtRecord example_tables example_d2ai example_weapon))) = 7"
    "wf_frame (the (builtRecord example_tables example_d2ai example_weapon)) =
       getFrame example_weapon example_tables"
    "wf_perks (the (builtRecord example_tables example_d2ai example_weapon)) =
       getPerks example_weapon example_tables"
    using builtRecord_SomeD [OF w] by (simp_all add: w ex_item_hash)
qed

lemma no_watermark_weaponsOf: "weaponsOf no_watermark_tables = [no_watermark_weapon]"
  by (simp add: weaponsOf_def Object_values_def List.map_filter_simps isWeapon_defs
      no_watermark_tables_def no_watermark_weapon_def example_tables_def example_weapon_def
      blank_item_def)

text \<open>
  C4 (as amended). The full records are built, in table order, from exactly the defined
  items that pass \<open>isWeapon\<close> and whose build does not throw, and the concise records are
  their projections: a record is emitted for an item if and only if the item passes
  \<open>isWeapon\<close> and its build returns. \<open>isWeapon\<close> holds if and only if the category hashes
  contain the weapon marker 1 and not the dummy marker 3109687656, the bucket hash is one
  of the three weapon-slot buckets, the display name is non-empty and the item is not
  redacted. The build throws if and only if a watermark path that \<open>getWatermark\<close> reads
  is absent. So an item failing any of the five conditions appears in neither output, and
  so does a qualifying item whose build throws.
\<close>

theorem transformWeapons_qualification:
  "full (transformWeapons tables d2aiData) =
     List.map_filter (builtRecord tables d2aiData)
       (filter isWeapon
          (List.map_filter (\<lambda>entry. entry)
             (Object_values (DestinyInventoryItemDefinition tables)))) \<and>
   concise (transformWeapons tables d2aiData) =
     map toWeaponConcise (full (transformWeapons tables d2aiData)) \<and>
   (w \<in> set (full (transformWeapons tables d2aiData)) \<longleftrightarrow>
      (\<exists>item. Some item \<in> set (Object_values (DestinyInventoryItemDefinition tables)) \<and>
              isWeapon item \<and> builtRecord tables d2aiData item = Some w)) \<and>
   (c \<in> set (concise (transformWeapons tables d2aiData)) \<longleftrightarrow>
      (\<exists>item w. Some item \<in> set (Object_values (DestinyInventoryItemDefinition tables)) \<and>
              isWeapon item \<and> builtRecord tables d2aiData item = Some w \<and>
              c = toWeaponConcise w)) \<and>
   (isWeapon itemDef \<longleftrightarrow>
      1 \<in> set (case itemCategoryHashes itemDef of None \<Rightarrow> [] | Some cs \<Rightarrow> cs) \<and>
      3109687656 \<notin> set (case itemCategoryHashes itemDef of None \<Rightarrow> [] | Some cs \<Rightarrow> cs) \<and>
      (\<exists>iv b. inventory itemDef = Some iv \<and> bucketTypeHash iv = Some b \<and>
               b \<in> {1498876634, 2465295065, 953998645}) \<and>
      dp_name (displayProperties itemDef) \<noteq> [] \<and>
      \<not> redacted itemDef) \<and>
   (builtRecord tables d2aiData itemDef = None \<longleftrightarrow>
      iconWatermark itemDef = None \<or>
      (iconWatermark itemDef = Some [] \<and> iconWatermarkShelved itemDef = None)) \<and>
   (builtRecord tables d2aiData itemDef = Some w' \<longrightarrow> wf_hash w' = item_hash itemDef)"
proof -
  have q: "isWeapon itemDef \<longleftrightarrow>
      1 \<in> set (case itemCategoryHashes itemDef of None \<Rightarrow> [] | Some cs \<Rightarrow> cs) \<and>
      3109687656 \<notin> set (case itemCategoryHashes itemDef of None \<Rightarrow> [] | Some cs \<Rightarrow> cs) \<and>
      (\<exists>iv b. inventory itemDef = Some iv \<and> bucketTypeHash iv = Some b \<and>
               b \<in> {1498876634, 2465295065, 953998645}) \<and>
      dp_name (displayProperties itemDef) \<noteq> [] \<and>
      \<not> redacted itemDef"
    by (auto simp: isWeapon_defs split: option.splits)
  have f: "full (transformWeapons tables d2aiData) =
     List.map_filter (builtRecord tables d2aiData)
       (filter isWeapon
          (List.map_filter (\<lambda>entry. entry)
             (Object_values (DestinyInventoryItemDefinition tables))))"
    using transformWeapons_full [of tables d2aiData] by (simp only: weaponsOf_eq)
  have m: "w \<in> set (full (transformWeapons tables d2aiData)) \<longleftrightarrow>
      (\<exists>item. Some item \<in> set (Object_values (DestinyInventoryItemDefinition tables)) \<and>
              isWeapon item \<and> builtRecord tables d2aiData item = Some w)" for w
    by (auto simp: full_mem_built weaponsOf_mem)
  have mc: "c \<in> set (concise (transformWeapons tables d2aiData)) \<longleftrightarrow>
      (\<exists>item w. Some item \<in> set (Object_values (DestinyInventoryItemDefinition tables)) \<and>
              isWeapon item \<and> builtRecord tables d2aiData item = Some w \<and>
              c = toWeaponConcise w)"
    unfolding transformWeapons_concise set_map image_iff using m by blast
  have h: "builtRecord tables d2aiData itemDef = Some w' \<longrightarrow> wf_hash w' = item_hash itemDef"
    using builtRecord_SomeD(1) by blast
  show ?thesis
    using f transformWeapons_concise [of tables d2aiData] m [of w] mc q
      builtRecord_None_iff [of tables d2aiData itemDef] h
    by (simp only: simp_thms)
qed

theorem transformWeapons_qualification_witness:
  "isWeapon example_weapon \<and> \<not> isWeapon example_redacted \<and>
   builtRecord example_tables example_d2ai example_weapon =
     Some (the (builtRecord example_tables example_d2ai example_weapon)) \<and>
   full (transformWeapons example_tables example_d2ai) =
     [the (builtRecord example_tables example_d2ai example_weapon)] \<and>
   map wf_hash (full (transformWeapons example_tables example_d2ai)) = [7] \<and>
   map wc_hash (concise (transformWeapons example_tables example_d2ai)) = [7] \<and>
   builtRecord example_tables example_d2ai no_watermark_weapon = None"
proof -
  note T = transformWeapons_qualification
    [of example_tables example_d2ai "the (builtRecord example_tables example_d2ai example_weapon)"
        "toWeaponConcise (the (builtRecord example_tables example_d2ai example_weapon))"
        no_watermark_weapon "the (builtRecord example_tables example_d2ai example_weapon)"]
  have items: "filter isWeapon (List.map_filter (\<lambda>entry. entry)
             (Object_values (DestinyInventoryItemDefinition example_tables))) = [example_weapon]"
    using ex_weaponsOf by (simp only: weaponsOf_eq)
  have b: "builtRecord example_tables example_d2ai example_weapon =
     Some (the (builtRecord example_tables example_d2ai example_weapon))"
    using ex_built by auto
  have f: "full (transformWeapons example_tables example_d2ai) =
     [the (builtRecord example_tables example_d2ai example_weapon)]"
  proof -
    obtain w where w: "builtRecord example_tables example_d2ai example_weapon = Some w"
      using ex_built by auto
    show ?thesis
      using T [THEN conjunct1] unfolding items by (simp add: List.map_filter_simps w)
  qed
  have c: "concise (transformWeapons example_tables example_d2ai) =
     [toWeaponConcise (the (builtRecord example_tables example_d2ai example_weapon))]"
    using T [THEN conjunct2, THEN conjunct1] unfolding f by simp
  have n: "builtRecord example_tables example_d2ai no_watermark_weapon = None"
    unfolding T [THEN conjunct2, THEN conjunct2, THEN conjunct2, THEN conjunct2,
                 THEN conjunct2, THEN conjunct1]
    by (simp add: no_watermark_weapon_def)
  have hs: "map wf_hash (full (transformWeapons example_tables example_d2ai)) = [7]"
    unfolding f by (simp add: ex_built_fields)
  have cs: "map wc_hash (concise (transformWeapons example_tables example_d2ai)) = [7]"
    unfolding c by (simp add: toWeaponConcise_def ex_built_fields)
  show ?thesis using ex_isWeapon b f hs cs n by (simp only: simp_thms)
qed

text \<open>
  The claim as the spec words it fails on a weapon without its \<^verbatim>\<open>iconWatermark\<close>
  field: the item passes all five conditions, it is the only item of the table, and
  neither output holds a record, because \<open>getWatermark\<close> throws and the
  \<^verbatim>\<open>catch\<close> block drops the item.
\<close>

theorem transformWeapons_qualification_counterexample:
  "isWeapon no_watermark_weapon \<and>
   Object_values (DestinyInventoryItemDefinition no_watermark_tables)
     = [Some no_watermark_weapon] \<and>
   getWatermark no_watermark_weapon = Inl (TypeError ''iconWatermark'') \<and>
   full (transformWeapons no_watermark_tables example_d2ai) = [] \<and>
   concise (transformWeapons no_watermark_tables example_d2ai) = []"
proof -
  have w: "isWeapon no_watermark_weapon"
    by (simp add: isWeapon_defs no_watermark_weapon_def example_weapon_def blank_item_def)
  have v: "Object_values (DestinyInventoryItemDefinition no_watermark_tables)
     = [Some no_watermark_weapon]"
    by (simp add: Object_values_def no_watermark_tables_def)
  have g: "getWatermark no_watermark_weapon = Inl (TypeError ''iconWatermark'')"
    by (simp add: getWatermark_def no_watermark_weapon_def)
  have n: "builtRecord no_watermark_tables example_d2ai no_watermark_weapon = None"
    by (simp add: builtRecord_None_iff no_watermark_weapon_def)
  have f: "full (transformWeapons no_watermark_tables example_d2ai) = []"
    by (simp add: transformWeapons_full no_watermark_weaponsOf List.map_filter_simps n)
  have c: "concise (transformWeapons no_watermark_tables example_d2ai) = []"
    by (simp add: transformWeapons_concise f)
  show ?thesis using w v g f c by (simp only: simp_thms)
qed

text \<open>
  C7. \<open>transformWeapons\<close> emits one full and one concise record per item whose build
  returns (per qualifying item when every build returns), at the same index, and the
  concise record is \<open>toWeaponConcise\<close> of the full one: its hash is the full record's
  hash, which is the hash of the full record's item; its frame is the frame's name, or
  the empty string when there is no frame; and its perks have the shape of the full
  record's perks, with \<open>perks[i][j]\<close> the name of the full record's \<open>perks[i][j]\<close>.
\<close>

theorem concise_is_projection_of_full:
  "full (transformWeapons tables d2aiData) =
     List.map_filter (builtRecord tables d2aiData) (weaponsOf tables) \<and>
   length (concise (transformWeapons tables d2aiData)) =
     length (full (transformWeapons tables d2aiData)) \<and>
   ((\<forall>item \<in> set (weaponsOf tables). builtRecord tables d2aiData item \<noteq> None) \<longrightarrow>
      length (full (transformWeapons tables d2aiData)) = length (weaponsOf tables) \<and>
      length (concise (transformWeapons tables d2aiData)) = length (weaponsOf tables) \<and>
      (\<forall>k < length (weaponsOf tables).
         builtRecord tables d2aiData (weaponsOf tables ! k) =
           Some (full (transformWeapons tables d2aiData) ! k))) \<and>
   (\<forall>k < length (full (transformWeapons tables d2aiData)).
      concise (transformWeapons tables d2aiData) ! k =
        toWeaponConcise (full (transformWeapons tables d2aiData) ! k) \<and>
      wc_hash (concise (transformWeapons tables d2aiData) ! k) =
        wf_hash (full (transformWeapons tables d2aiData) ! k) \<and>
      wf_hash (full (transformWeapons tables d2aiData) ! k) =
        wi_hash (wf_item (full (transformWeapons tables d2aiData) ! k)) \<and>
      wc_frame (concise (transformWeapons tables d2aiData) ! k) =
        (case wf_frame (full (transformWeapons tables d2aiData) ! k) of
           None \<Rightarrow> [] | Some f \<Rightarrow> frame_name f) \<and>
      length (wc_perks (concise (transformWeapons tables d2aiData) ! k)) =
        length (wf_perks (full (transformWeapons tables d2aiData) ! k)) \<and>
      (\<forall>i < length (wf_perks (full (transformWeapons tables d2aiData) ! k)).
         length (wc_perks (concise (transformWeapons tables d2aiData) ! k) ! i) =
           length (wf_perks (full (transformWeapons tables d2aiData) ! k) ! i) \<and>
         (\<forall>j < length (wf_perks (full (transformWeapons tables d2aiData) ! k) ! i).
            wc_perks (concise (transformWeapons tables d2aiData) ! k) ! i ! j =
              perk_name (wf_perks (full (transformWeapons tables d2aiData) ! k) ! i ! j))))"
proof (intro conjI impI allI)
  let ?F = "full (transformWeapons tables d2aiData)"
  let ?C = "concise (transformWeapons tables d2aiData)"
  show "?F = List.map_filter (builtRecord tables d2aiData) (weaponsOf tables)"
    by (rule transformWeapons_full)
  show "length ?C = length ?F"
    by (simp add: transformWeapons_concise)
  {
    assume all: "\<forall>item \<in> set (weaponsOf tables). builtRecord tables d2aiData item \<noteq> None"
    have eq: "map Some ?F = map (builtRecord tables d2aiData) (weaponsOf tables)"
      unfolding transformWeapons_full by (rule map_filter_all_Some [OF all])
    show len: "length ?F = length (weaponsOf tables)"
      using arg_cong [OF eq, of length] by simp
    show "length ?C = length (weaponsOf tables)"
      using len by (simp add: transformWeapons_concise)
    fix k assume "k < length (weaponsOf tables)"
    then show "builtRecord tables d2aiData (weaponsOf tables ! k) = Some (?F ! k)"
      using arg_cong [OF eq, of "\<lambda>xs. xs ! k"] len by simp
  }
  fix k assume k: "k < length ?F"
  then have "?F ! k \<in> set ?F" by simp
  then obtain item where b: "builtRecord tables d2aiData item = Some (?F ! k)"
    by (auto simp: full_mem_built)
  show c: "?C ! k = toWeaponConcise (?F ! k)"
    using k by (simp add: transformWeapons_concise)
  show "wc_hash (?C ! k) = wf_hash (?F ! k)"
    unfolding c by (simp add: toWeaponConcise_def)
  show "wf_hash (?F ! k) = wi_hash (wf_item (?F ! k))"
    using builtRecord_SomeD(1,2) [OF b] by simp
  show "wc_frame (?C ! k) = (case wf_frame (?F ! k) of None \<Rightarrow> [] | Some f \<Rightarrow> frame_name f)"
    unfolding c by (simp add: toWeaponConcise_def)
  show "length (wc_perks (?C ! k)) = length (wf_perks (?F ! k))"
    unfolding c by (simp add: toWeaponConcise_def)
  fix i assume i: "i < length (wf_perks (?F ! k))"
  show "length (wc_perks (?C ! k) ! i) = length (wf_perks (?F ! k) ! i)"
    unfolding c using i by (simp add: toWeaponConcise_def)
  fix j assume j: "j < length (wf_perks (?F ! k) ! i)"
  show "wc_perks (?C ! k) ! i ! j = perk_name (wf_perks (?F ! k) ! i ! j)"
    unfolding c using i j by (simp add: toWeaponConcise_def)
qed

theorem concise_is_projection_of_full_witness:
  "length (full (transformWeapons example_tables example_d2ai)) = 1 \<and>
   length (concise (transformWeapons example_tables example_d2ai)) = 1 \<and>
   builtRecord example_tables example_d2ai (weaponsOf example_tables ! 0) =
     Some (full (transformWeapons example_tables example_d2ai) ! 0) \<and>
   concise (transformWeapons example_tables example_d2ai) ! 0 =
     toWeaponConcise (full (transformWeapons example_tables example_d2ai) ! 0) \<and>
   wc_hash (concise (transformWeapons example_tables example_d2ai) ! 0) = 7 \<and>
   wi_hash (wf_item (full (transformWeapons example_tables example_d2ai) ! 0)) = 7 \<and>
   wc_frame (concise (transformWeapons example_tables example_d2ai) ! 0) = ''Adaptive Frame'' \<and>
   wc_perks (concise (transformWeapons example_tables example_d2ai) ! 0) =
     [[''Rampage'', ''Kill Clip'', ''Outlaw'', ''Curated Special''], [''Kill Clip''], [''Origin'']]"
proof -
  let ?w = "the (builtRecord example_tables example_d2ai example_weapon)"
  note T = concise_is_projection_of_full [of example_tables example_d2ai]
  have all: "\<forall>item \<in> set (weaponsOf example_tables).
               builtRecord example_tables example_d2ai item \<noteq> None"
    using ex_built by (simp add: ex_weaponsOf)
  note A = T [THEN conjunct2, THEN conjunct2, THEN conjunct1, THEN mp, OF all]
  have l1: "length (full (transformWeapons example_tables example_d2ai)) = 1"
    using A [THEN conjunct1] by (simp add: ex_weaponsOf)
  have l2: "length (concise (transformWeapons example_tables example_d2ai)) = 1"
    using A [THEN conjunct2, THEN conjunct1] by (simp add: ex_weaponsOf)
  have k0: "0 < length (weaponsOf example_tables)" by (simp add: ex_weaponsOf)
  have b0: "builtRecord example_tables example_d2ai (weaponsOf example_tables ! 0) =
     Some (full (transformWeapons example_tables example_d2ai) ! 0)"
    by (rule A [THEN conjunct2, THEN conjunct2, rule_format, OF k0])
  have k: "0 < length (full (transformWeapons example_tables example_d2ai))"
    by (simp add: l1)
  note inst = T [THEN conjunct2, THEN conjunct2, THEN conjunct2, rule_format, OF k]
  have c0: "concise (transformWeapons example_tables example_d2ai) ! 0 =
     toWeaponConcise (full (transformWeapons example_tables example_d2ai) ! 0)"
    by (rule inst [THEN conjunct1])
  have f0: "full (transformWeapons example_tables example_d2ai) ! 0 = ?w"
    by (simp add: ex_full)
  have fr: "(case getFrame example_weapon example_tables of None \<Rightarrow> [] | Some f \<Rightarrow> frame_name f)
      = ''Adaptive Frame''"
    using ex_frame by (auto split: option.splits)
  have v1: "wc_hash (toWeaponConcise ?w) = 7"
    by (simp add: toWeaponConcise_def ex_built_fields)
  have v2: "wi_hash (wf_item ?w) = 7"
    by (simp add: ex_built_fields)
  have v3: "wc_frame (toWeaponConcise ?w) = ''Adaptive Frame''"
    by (simp add: toWeaponConcise_def ex_built_fields fr)
  have v4: "wc_perks (toWeaponConcise ?w) =
      [[''Rampage'', ''Kill Clip'', ''Outlaw'', ''Curated Special''], [''Kill Clip''], [''Origin'']]"
    by (simp add: toWeaponConcise_def ex_built_fields ex_column_names)
  show ?thesis
    using l1 l2 b0 c0 v1 v2 v3 v4 unfolding c0 f0 by (simp only: simp_thms)
qed

section \<open>Season and event derivation\<close>

text \<open>
  C5 (as amended). For an item whose watermark can be read, the derived season is the
  first hit of: the item's watermark (the primary path if non-empty, else the shelved
  path, else none) in the watermark-to-season map; the item's source hash in the
  source-to-season map, a step that is taken only when the item has a source hash and
  that hash is not 0; the item's own hash in the item-to-season map; and it is null when
  none hits. The derived event is the first hit of the watermark in the
  watermark-to-event map and the item's hash in the item-to-event map.
  \<open>extractWeaponItem\<close> then returns a record that stores exactly these two values, with
  the source hash read from the collectible index.
\<close>

theorem season_event_fallback_chain:
  "(getWatermark itemDef = Inr watermark \<longrightarrow>
      getSeason itemDef watermark sourceHash d2aiData =
        firstSome
          [case watermark of None \<Rightarrow> None | Some w \<Rightarrow> watermarkToSeason d2aiData w,
           case sourceHash of
             None \<Rightarrow> None
           | Some sh \<Rightarrow> if sh = 0 then None else sourceToSeason d2aiData (String_of sh),
           seasons d2aiData (String_of (item_hash itemDef))] \<and>
      getEvent itemDef watermark sourceHash d2aiData =
        firstSome
          [case watermark of None \<Rightarrow> None | Some w \<Rightarrow> watermarkToEvent d2aiData w,
           events d2aiData (String_of (item_hash itemDef))] \<and>
      (\<exists>weaponItem.
         extractWeaponItem itemDef tables d2aiData coll = Inr weaponItem \<and>
         wi_season weaponItem =
           getSeason itemDef watermark (coll (String_of (item_hash itemDef))) d2aiData \<and>
         wi_event weaponItem =
           getEvent itemDef watermark (coll (String_of (item_hash itemDef))) d2aiData)) \<and>
   getWatermark itemDef =
     (case iconWatermark itemDef of
        None \<Rightarrow> Inl (TypeError ''iconWatermark'')
      | Some primary \<Rightarrow>
          if primary \<noteq> [] then Inr (Some primary)
          else (case iconWatermarkShelved itemDef of
                  None \<Rightarrow> Inl (TypeError ''iconWatermarkShelved'')
                | Some shelved \<Rightarrow> if shelved \<noteq> [] then Inr (Some shelved) else Inr None)) \<and>
   (extractWeaponItem itemDef tables d2aiData coll = Inr weaponItem' \<longrightarrow>
      (\<exists>wm. getWatermark itemDef = Inr wm \<and>
         wi_season weaponItem' =
           getSeason itemDef wm (coll (String_of (item_hash itemDef))) d2aiData \<and>
         wi_event weaponItem' =
           getEvent itemDef wm (coll (String_of (item_hash itemDef))) d2aiData))"
proof -
  have w: "getWatermark itemDef =
     (case iconWatermark itemDef of
        None \<Rightarrow> Inl (TypeError ''iconWatermark'')
      | Some primary \<Rightarrow>
          if primary \<noteq> [] then Inr (Some primary)
          else (case iconWatermarkShelved itemDef of
                  None \<Rightarrow> Inl (TypeError ''iconWatermarkShelved'')
                | Some shelved \<Rightarrow> if shelved \<noteq> [] then Inr (Some shelved) else Inr None))"
    by (simp add: getWatermark_def split: option.splits)
  have ne: "getWatermark itemDef \<noteq> Inr (Some [])"
    by (simp add: getWatermark_def split: option.splits)
  have s: "getSeason itemDef watermark sourceHash d2aiData =
        firstSome
          [case watermark of None \<Rightarrow> None | Some w \<Rightarrow> watermarkToSeason d2aiData w,
           case sourceHash of
             None \<Rightarrow> None
           | Some sh \<Rightarrow> if sh = 0 then None else sourceToSeason d2aiData (String_of sh),
           seasons d2aiData (String_of (item_hash itemDef))]"
    if "getWatermark itemDef = Inr watermark"
    using ne that by (auto simp: getSeason_def firstSome_Cons split: option.splits)
  have e: "getEvent itemDef watermark sourceHash d2aiData =
        firstSome
          [case watermark of None \<Rightarrow> None | Some w \<Rightarrow> watermarkToEvent d2aiData w,
           events d2aiData (String_of (item_hash itemDef))]"
    if "getWatermark itemDef = Inr watermark"
    using ne that by (auto simp: getEvent_def firstSome_Cons split: option.splits)
  have x: "\<exists>weaponItem.
         extractWeaponItem itemDef tables d2aiData coll = Inr weaponItem \<and>
         wi_season weaponItem =
           getSeason itemDef watermark (coll (String_of (item_hash itemDef))) d2aiData \<and>
         wi_event weaponItem =
           getEvent itemDef watermark (coll (String_of (item_hash itemDef))) d2aiData"
    if "getWatermark itemDef = Inr watermark"
    using that by (simp add: extractWeaponItem_def Let_def)
  have y: "\<exists>wm. getWatermark itemDef = Inr wm \<and>
         wi_season weaponItem' =
           getSeason itemDef wm (coll (String_of (item_hash itemDef))) d2aiData \<and>
         wi_event weaponItem' =
           getEvent itemDef wm (coll (String_of (item_hash itemDef))) d2aiData"
    if "extractWeaponItem itemDef tables d2aiData coll = Inr weaponItem'"
    using that by (auto simp: extractWeaponItem_def Let_def split: sum.splits)
  show ?thesis using w s e x y by blast
qed

theorem season_event_fallback_chain_witness:
  "getWatermark example_weapon = Inr (Some ''/w.png'') \<and>
   getSeason example_weapon (Some ''/w.png'') (Some 900) example_d2ai = Some 5 \<and>
   getEvent example_weapon (Some ''/w.png'') (Some 900) example_d2ai = Some 2 \<and>
   getWatermark (example_weapon\<lparr>iconWatermarkShelved := Some []\<rparr>) = Inr None \<and>
   getSeason (example_weapon\<lparr>iconWatermarkShelved := Some []\<rparr>) None (Some 900) example_d2ai
     = Some 4"
proof -
  note T = season_event_fallback_chain
    [of example_weapon "Some ''/w.png''" "Some 900" example_d2ai example_tables Map.empty]
  note U = season_event_fallback_chain
    [of "example_weapon\<lparr>iconWatermarkShelved := Some []\<rparr>" None "Some 900" example_d2ai
        example_tables Map.empty]
  have w: "getWatermark example_weapon = Inr (Some ''/w.png'')"
    unfolding T [THEN conjunct2, THEN conjunct1]
    by (simp add: example_weapon_def blank_item_def)
  have s: "getSeason example_weapon (Some ''/w.png'') (Some 900) example_d2ai = Some 5"
    unfolding T [THEN conjunct1, THEN mp, OF w, THEN conjunct1]
    by (simp add: example_d2ai_def)
  have e: "getEvent example_weapon (Some ''/w.png'') (Some 900) example_d2ai = Some 2"
    unfolding T [THEN conjunct1, THEN mp, OF w, THEN conjunct2, THEN conjunct1]
    by (simp add: ex_item_hash example_d2ai_def String_of_examples)
  have w': "getWatermark (example_weapon\<lparr>iconWatermarkShelved := Some []\<rparr>) = Inr None"
    unfolding U [THEN conjunct2, THEN conjunct1]
    by (simp add: example_weapon_def blank_item_def)
  have s': "getSeason (example_weapon\<lparr>iconWatermarkShelved := Some []\<rparr>) None (Some 900)
              example_d2ai = Some 4"
    unfolding U [THEN conjunct1, THEN mp, OF w', THEN conjunct1]
    by (simp add: example_d2ai_def String_of_examples)
  show ?thesis using w s e w' s' by (simp only: simp_thms)
qed

text \<open>
  The claim as the spec words it fails on a source hash of 0: the weapon 30 has no
  watermark, its collectible gives it the source hash 0, the source-to-season map has an
  entry for \<^verbatim>\<open>"0"\<close>, so the chain as worded yields 5, and yet the derived season is
  null, because \<^verbatim>\<open>if (sourceHash)\<close> skips the step.
\<close>

theorem season_source_zero_counterexample:
  "map (\<lambda>w. (wi_source (wf_item w), wi_season (wf_item w)))
     (full (transformWeapons zero_source_tables zero_source_d2ai)) = [(Some 0, None)] \<and>
   getWatermark zero_source_weapon = Inr None \<and>
   sourceToSeason zero_source_d2ai (String_of 0) = Some 5 \<and>
   firstSome [None, sourceToSeason zero_source_d2ai (String_of 0),
              seasons zero_source_d2ai (String_of 30)] = Some 5"
  by (simp add: transformWeapons_def weaponsOf_def Object_values_def List.map_filter_simps
      isWeapon_defs buildWeaponFull_def extractWeaponItem_def collectibleLookup_def
      getSeason_def getWatermark_def String_of_examples zero_source_weapon_def
      zero_source_tables_def zero_source_d2ai_def emptyD2AIData_def example_weapon_def
      blank_item_def)

section \<open>Perk columns\<close>

lemma getCuratedPlugHashes_fold:
  "getCuratedPlugHashes socket =
     fold (\<lambda>x s. Set_add s x) (map sp_plugItemHash (se_reusablePlugItems socket)) []"
  by (simp add: getCuratedPlugHashes_def fold_map comp_def)

lemma getCuratedPlugHashes_set:
  "set (getCuratedPlugHashes socket) = sp_plugItemHash ` set (se_reusablePlugItems socket)"
  by (simp add: getCuratedPlugHashes_fold fold_Set_add_set)

lemma getCuratedPlugHashes_distinct: "distinct (getCuratedPlugHashes socket)"
  by (simp add: getCuratedPlugHashes_fold fold_Set_add_distinct)

lemma resolvePerk_SomeD:
  "resolvePerk tables h = Some plugDef \<Longrightarrow>
     table_get (DestinyInventoryItemDefinition tables) (String_of h) = Some plugDef \<and>
     isValidPerk plugDef"
  by (auto simp: resolvePerk_def split: option.splits if_splits)

text \<open>
  The two loops of \<open>getPerksFromPlugSet\<close> as list functions: the pool entries that
  resolve, in pool order, then the curated hashes outside the pool that resolve.
\<close>

lemma getPerksFromPlugSet_eq:
  "getPerksFromPlugSet socket plugSet tables =
     List.map_filter
       (\<lambda>plug. map_option
          (\<lambda>plugDef. createPerk plugDef
             \<lparr>opt_isCurated =
                (ps_plugItemHash plug \<in> sp_plugItemHash ` set (se_reusablePlugItems socket)),
              opt_curatedExclusive = False,
              opt_isDeprecated = (\<not> currentlyCanRoll plug)\<rparr>)
          (resolvePerk tables (ps_plugItemHash plug)))
       (ps_reusablePlugItems plugSet)
     @
     List.map_filter
       (\<lambda>h. map_option
          (\<lambda>plugDef. createPerk plugDef
             \<lparr>opt_isCurated = True, opt_curatedExclusive = True, opt_isDeprecated = False\<rparr>)
          (resolvePerk tables h))
       (filter (\<lambda>h. h \<notin> ps_plugItemHash ` set (ps_reusablePlugItems plugSet))
          (getCuratedPlugHashes socket))"
proof -
  let ?items = "DestinyInventoryItemDefinition tables"
  let ?pool = "ps_reusablePlugItems plugSet"
  let ?g1 = "\<lambda>plug. case map_option
          (\<lambda>plugDef. createPerk plugDef
             \<lparr>opt_isCurated =
                (ps_plugItemHash plug \<in> sp_plugItemHash ` set (se_reusablePlugItems socket)),
              opt_curatedExclusive = False,
              opt_isDeprecated = (\<not> currentlyCanRoll plug)\<rparr>)
          (resolvePerk tables (ps_plugItemHash plug)) of None \<Rightarrow> [] | Some y \<Rightarrow> [y]"
  let ?f1 = "\<lambda>plug perks.
                    case table_get ?items (String_of (ps_plugItemHash plug)) of
                      None \<Rightarrow> perks
                    | Some plugDef \<Rightarrow>
                        if \<not> isValidPerk plugDef then perks
                        else perks @
                               [createPerk plugDef
                                  \<lparr>opt_isCurated =
                                     Set_has (getCuratedPlugHashes socket) (ps_plugItemHash plug),
                                   opt_curatedExclusive = False,
                                   opt_isDeprecated = (\<not> currentlyCanRoll plug)\<rparr>]"
  let ?rp = "fold (\<lambda>h s. Set_add s h) (map ps_plugItemHash ?pool) []"
  let ?f2 = "\<lambda>curatedHash perks.
                 if Set_has ?rp curatedHash then perks
                 else (case table_get ?items (String_of curatedHash) of
                         None \<Rightarrow> perks
                       | Some plugDef \<Rightarrow>
                           if \<not> isValidPerk plugDef then perks
                           else perks @
                                  [createPerk plugDef
                                     \<lparr>opt_isCurated = True,
                                      opt_curatedExclusive = True,
                                      opt_isDeprecated = False\<rparr>])"
  let ?h = "\<lambda>h. map_option
          (\<lambda>plugDef. createPerk plugDef
             \<lparr>opt_isCurated = True, opt_curatedExclusive = True, opt_isDeprecated = False\<rparr>)
          (resolvePerk tables h)"
  let ?g2 = "\<lambda>h. if h \<in> ps_plugItemHash ` set ?pool then []
                  else (case ?h h of None \<Rightarrow> [] | Some y \<Rightarrow> [y])"
  have s1: "\<And>plug perks. ?f1 plug perks = perks @ ?g1 plug"
    by (simp add: resolvePerk_def Set_has_def getCuratedPlugHashes_set split: option.splits)
  have p1: "fold ?f1 ?pool [] = List.map_filter
       (\<lambda>plug. map_option
          (\<lambda>plugDef. createPerk plugDef
             \<lparr>opt_isCurated =
                (ps_plugItemHash plug \<in> sp_plugItemHash ` set (se_reusablePlugItems socket)),
              opt_curatedExclusive = False,
              opt_isDeprecated = (\<not> currentlyCanRoll plug)\<rparr>)
          (resolvePerk tables (ps_plugItemHash plug))) ?pool"
    by (simp only: fold_append_concat [of ?f1 ?g1, OF s1] concat_option_map_filter append_Nil)
  have s2: "\<And>h perks. ?f2 h perks = perks @ ?g2 h"
    by (simp add: resolvePerk_def Set_has_def fold_Set_add_set split: option.splits)
  have c2: "concat (map ?g2 xs) =
              List.map_filter ?h (filter (\<lambda>h. h \<notin> ps_plugItemHash ` set ?pool) xs)"
    for xs
    by (induction xs)
       (simp_all add: List.map_filter_simps del: image_eqI split: option.splits)
  have p2: "fold ?f2 (getCuratedPlugHashes socket) acc =
        acc @ List.map_filter ?h
                (filter (\<lambda>h. h \<notin> ps_plugItemHash ` set ?pool) (getCuratedPlugHashes socket))"
    for acc
    by (simp only: fold_append_concat [of ?f2 ?g2, OF s2] c2)
  have "getPerksFromPlugSet socket plugSet tables =
          fold ?f2 (getCuratedPlugHashes socket) (fold ?f1 ?pool [])"
    by (simp add: getPerksFromPlugSet_def Let_def)
  then show ?thesis by (simp only: p2 p1)
qed

lemma map_perk_hash_map_filter:
  assumes "\<forall>x \<in> set xs. \<forall>d.
             table_get (DestinyInventoryItemDefinition tables) (String_of (key x)) = Some d
             \<longrightarrow> item_hash d = key x"
  shows "map perk_hash
           (List.map_filter
              (\<lambda>x. map_option (\<lambda>plugDef. createPerk plugDef (opts x)) (resolvePerk tables (key x)))
              xs) =
         filter (\<lambda>h. resolvePerk tables h \<noteq> None) (map key xs)"
  using assms
proof (induction xs)
  case Nil
  then show ?case by (simp add: List.map_filter_simps)
next
  case (Cons x xs)
  then have IH: "map perk_hash
           (List.map_filter
              (\<lambda>x. map_option (\<lambda>plugDef. createPerk plugDef (opts x)) (resolvePerk tables (key x)))
              xs) =
         filter (\<lambda>h. resolvePerk tables h \<noteq> None) (map key xs)"
    by simp
  show ?case
  proof (cases "resolvePerk tables (key x)")
    case None
    then show ?thesis using IH by (simp add: List.map_filter_simps)
  next
    case (Some d)
    from resolvePerk_SomeD [OF Some] Cons.prems have "item_hash d = key x" by simp
    then have "perk_hash (createPerk d (opts x)) = key x"
      by (simp add: createPerk_def)
    then show ?thesis using Some IH by (simp add: List.map_filter_simps)
  qed
qed

lemma getPerksFromPlugSet_hashes:
  assumes "\<forall>h \<in> ps_plugItemHash ` set (ps_reusablePlugItems plugSet) \<union>
                 set (getCuratedPlugHashes socket).
             \<forall>d. table_get (DestinyInventoryItemDefinition tables) (String_of h) = Some d
                   \<longrightarrow> item_hash d = h"
  shows "map perk_hash (getPerksFromPlugSet socket plugSet tables) =
           filter (\<lambda>h. resolvePerk tables h \<noteq> None)
             (map ps_plugItemHash (ps_reusablePlugItems plugSet)) @
           filter (\<lambda>h. resolvePerk tables h \<noteq> None)
             (filter (\<lambda>h. h \<notin> ps_plugItemHash ` set (ps_reusablePlugItems plugSet))
                (getCuratedPlugHashes socket))"
proof -
  have ka: "\<forall>x \<in> set (ps_reusablePlugItems plugSet). \<forall>d.
             table_get (DestinyInventoryItemDefinition tables) (String_of (ps_plugItemHash x))
               = Some d \<longrightarrow> item_hash d = ps_plugItemHash x"
    using assms by auto
  have a: "map perk_hash
       (List.map_filter
         (\<lambda>plug. map_option
            (\<lambda>plugDef. createPerk plugDef
               \<lparr>opt_isCurated =
                  (ps_plugItemHash plug \<in> sp_plugItemHash ` set (se_reusablePlugItems socket)),
                opt_curatedExclusive = False,
                opt_isDeprecated = (\<not> currentlyCanRoll plug)\<rparr>)
            (resolvePerk tables (ps_plugItemHash plug)))
         (ps_reusablePlugItems plugSet)) =
       filter (\<lambda>h. resolvePerk tables h \<noteq> None)
         (map ps_plugItemHash (ps_reusablePlugItems plugSet))"
    by (rule map_perk_hash_map_filter [OF ka])
  have b: "map perk_hash
       (List.map_filter
         (\<lambda>h. map_option
            (\<lambda>plugDef. createPerk plugDef
               \<lparr>opt_isCurated = True, opt_curatedExclusive = True, opt_isDeprecated = False\<rparr>)
            (resolvePerk tables h))
         (filter (\<lambda>h. h \<notin> ps_plugItemHash ` set (ps_reusablePlugItems plugSet))
            (getCuratedPlugHashes socket))) =
       filter (\<lambda>h. resolvePerk tables h \<noteq> None)
         (filter (\<lambda>h. h \<notin> ps_plugItemHash ` set (ps_reusablePlugItems plugSet))
            (getCuratedPlugHashes socket))"
    using map_perk_hash_map_filter [of
          "filter (\<lambda>h. h \<notin> ps_plugItemHash ` set (ps_reusablePlugItems plugSet))
            (getCuratedPlugHashes socket)" tables "\<lambda>h. h"
          "\<lambda>h. \<lparr>opt_isCurated = True, opt_curatedExclusive = True, opt_isDeprecated = False\<rparr>"]
      assms
    by simp
  show ?thesis
    unfolding getPerksFromPlugSet_eq map_append a b by (rule refl)
qed

lemma getPerks_step_append:
  "getPerks_step tables socket cols = cols @ getPerks_step tables socket []"
  by (simp add: getPerks_step_def Let_def split: option.splits)

lemma fold_getPerks_step:
  "fold (getPerks_step tables) ss acc = acc @ concat (map (\<lambda>s. getPerks_step tables s []) ss)"
  by (rule fold_append_concat) (rule getPerks_step_append)

lemma fold_getPerks_step_Nil:
  "fold (getPerks_step tables) ss [] = concat (map (\<lambda>s. getPerks_step tables s []) ss)"
  using fold_getPerks_step [of tables ss "[]"] by simp

lemma getPerks_step_single:
  "getPerks_step tables socket [] = [] \<or>
   (\<exists>col. col \<noteq> [] \<and> getPerks_step tables socket [] = [col])"
  by (simp add: getPerks_step_def Let_def split: option.splits)

lemma getPerks_step_no_empty: "[] \<notin> set (getPerks_step tables socket [])"
  using getPerks_step_single [of tables socket] by auto

lemma getPerks_no_empty: "[] \<notin> set (getPerks itemDef tables)"
  by (auto simp: getPerks_def fold_getPerks_step getPerks_step_no_empty)


text \<open>
  C2 (as amended). Take a socket of the weapon-perks category that is not a tracker and
  whose plug-set hash (the randomized one preferred over the reusable one) resolves to a
  plug set with a non-empty resulting list. Then that list is the socket's column, standing
  between the columns of the sockets before and after it, and it consists of: for each
  pool entry, in pool order, whose plug hash resolves to a definition that passes
  \<open>isValidPerk\<close>, a perk with \<open>isCurated\<close> true iff the entry's plug hash is in the
  socket's own reusable-plug list, \<open>isDeprecated\<close> true iff the entry's
  \<open>currentlyCanRoll\<close> is false, and \<open>curatedExclusive\<close> false; followed by, for each
  hash of the socket's curated list (taken once) that is absent from the pool and
  resolves to such a definition, a perk with \<open>isCurated\<close> and \<open>curatedExclusive\<close> true
  and \<open>isDeprecated\<close> false. Pool entries and curated hashes that do not resolve to a
  valid plug definition are skipped. Where the item table stores these plugs under their
  own hashes, the hashes of the column are the resolving pool hashes in pool order
  followed by the resolving curated hashes outside the pool.
\<close>

theorem plug_set_column:
  assumes "getSocketsByCategory itemDef SocketCategoryHashes_WeaponPerks = before @ socket # after"
      and "socketTypeHash socket \<noteq> SocketTypeHashes_Tracker"
      and "(case randomizedPlugSetHash socket of
              Some h \<Rightarrow> Some h | None \<Rightarrow> reusablePlugSetHash socket) = Some plugSetHash"
      and "table_get (DestinyPlugSetDefinition tables) (String_of plugSetHash) = Some plugSet"
      and "getPerksFromPlugSet socket plugSet tables \<noteq> []"
  shows "getPerks itemDef tables =
           fold (getPerks_step tables) before [] @
           [getPerksFromPlugSet socket plugSet tables] @
           fold (getPerks_step tables) after [] \<and>
         getPerksFromPlugSet socket plugSet tables =
           List.map_filter
             (\<lambda>plug. map_option
                (\<lambda>plugDef. createPerk plugDef
                   \<lparr>opt_isCurated =
                      (ps_plugItemHash plug \<in> sp_plugItemHash ` set (se_reusablePlugItems socket)),
                    opt_curatedExclusive = False,
                    opt_isDeprecated = (\<not> currentlyCanRoll plug)\<rparr>)
                (resolvePerk tables (ps_plugItemHash plug)))
             (ps_reusablePlugItems plugSet)
           @
           List.map_filter
             (\<lambda>h. map_option
                (\<lambda>plugDef. createPerk plugDef
                   \<lparr>opt_isCurated = True, opt_curatedExclusive = True, opt_isDeprecated = False\<rparr>)
                (resolvePerk tables h))
             (filter (\<lambda>h. h \<notin> ps_plugItemHash ` set (ps_reusablePlugItems plugSet))
                (getCuratedPlugHashes socket)) \<and>
         distinct (getCuratedPlugHashes socket) \<and>
         set (getCuratedPlugHashes socket) = sp_plugItemHash ` set (se_reusablePlugItems socket) \<and>
         ((\<forall>h \<in> ps_plugItemHash ` set (ps_reusablePlugItems plugSet) \<union>
                  set (getCuratedPlugHashes socket).
             \<forall>d. table_get (DestinyInventoryItemDefinition tables) (String_of h) = Some d
                   \<longrightarrow> item_hash d = h) \<longrightarrow>
          map perk_hash (getPerksFromPlugSet socket plugSet tables) =
            filter (\<lambda>h. resolvePerk tables h \<noteq> None)
              (map ps_plugItemHash (ps_reusablePlugItems plugSet)) @
            filter (\<lambda>h. resolvePerk tables h \<noteq> None)
              (filter (\<lambda>h. h \<notin> ps_plugItemHash ` set (ps_reusablePlugItems plugSet))
                 (getCuratedPlugHashes socket)))"
proof -
  have step: "getPerks_step tables socket [] = [getPerksFromPlugSet socket plugSet tables]"
    using assms(2-5) by (simp add: getPerks_step_def Let_def)
  have cols: "getPerks itemDef tables =
           fold (getPerks_step tables) before [] @
           [getPerksFromPlugSet socket plugSet tables] @
           fold (getPerks_step tables) after []"
    unfolding getPerks_def assms(1) fold_getPerks_step_Nil by (simp add: step)
  show ?thesis
  proof (intro conjI impI)
    show "getPerks itemDef tables =
           fold (getPerks_step tables) before [] @
           [getPerksFromPlugSet socket plugSet tables] @
           fold (getPerks_step tables) after []"
      by (rule cols)
  qed (rule getPerksFromPlugSet_eq getCuratedPlugHashes_distinct getCuratedPlugHashes_set
        getPerksFromPlugSet_hashes, assumption?)+
qed

theorem plug_set_column_witness:
  "getSocketsByCategory example_weapon SocketCategoryHashes_WeaponPerks =
     [] @ example_sockets ! 1 #
     [example_sockets ! 2, example_sockets ! 3, example_sockets ! 4, example_sockets ! 5] \<and>
   randomizedPlugSetHash (example_sockets ! 1) = Some 100 \<and>
   table_get (DestinyPlugSetDefinition example_tables) (String_of 100) = Some example_pool \<and>
   map ps_plugItemHash (ps_reusablePlugItems example_pool) = [11, 13, 14, 12, 15] \<and>
   getCuratedPlugHashes (example_sockets ! 1) = [11, 17, 18] \<and>
   map (\<lambda>h. map_option item_hash
               (table_get (DestinyInventoryItemDefinition example_tables) (String_of h)))
     [11, 13, 14, 12, 15, 17, 18] =
     [Some 11, Some 13, Some 14, Some 12, Some 15, Some 17, None] \<and>
   getPerks example_weapon example_tables =
     fold (getPerks_step example_tables) [] [] @
     [getPerksFromPlugSet (example_sockets ! 1) example_pool example_tables] @
     fold (getPerks_step example_tables)
       [example_sockets ! 2, example_sockets ! 3, example_sockets ! 4, example_sockets ! 5] [] \<and>
   map (\<lambda>p. (perk_hash p, isCurated p, curatedExclusive p, isDeprecated p))
     (getPerksFromPlugSet (example_sockets ! 1) example_pool example_tables) =
     [(11, True, False, False), (13, False, False, False),
      (14, False, False, True), (17, True, True, False)] \<and>
   map perk_hash (getPerksFromPlugSet (example_sockets ! 1) example_pool example_tables) =
     filter (\<lambda>h. resolvePerk example_tables h \<noteq> None) [11, 13, 14, 12, 15] @
     filter (\<lambda>h. resolvePerk example_tables h \<noteq> None) [17, 18]"
proof -
  have h1: "getSocketsByCategory example_weapon SocketCategoryHashes_WeaponPerks =
     [] @ example_sockets ! 1 #
     [example_sockets ! 2, example_sockets ! 3, example_sockets ! 4, example_sockets ! 5]"
    by (simp add: ex_sockets)
  have h2: "socketTypeHash (example_sockets ! 1) \<noteq> SocketTypeHashes_Tracker"
    by (simp add: example_sockets_def blank_socket_def SocketTypeHashes_Tracker_def)
  have h3: "(case randomizedPlugSetHash (example_sockets ! 1) of
              Some h \<Rightarrow> Some h | None \<Rightarrow> reusablePlugSetHash (example_sockets ! 1)) = Some 100"
    by (simp add: example_sockets_def blank_socket_def)
  have h4: "table_get (DestinyPlugSetDefinition example_tables) (String_of 100) = Some example_pool"
    by (simp add: table_get_def String_of_examples example_tables_def)
  have h5: "getPerksFromPlugSet (example_sockets ! 1) example_pool example_tables \<noteq> []"
    using ex_pool_column by auto
  have r: "randomizedPlugSetHash (example_sockets ! 1) = Some 100"
    by (simp add: example_sockets_def blank_socket_def)
  have pool: "map ps_plugItemHash (ps_reusablePlugItems example_pool) = [11, 13, 14, 12, 15]"
    by (simp add: example_pool_def)
  have cur: "getCuratedPlugHashes (example_sockets ! 1) = [11, 17, 18]"
    by (simp add: getCuratedPlugHashes_def Set_add_def example_sockets_def blank_socket_def)
  have keyed: "map (\<lambda>h. map_option item_hash
               (table_get (DestinyInventoryItemDefinition example_tables) (String_of h)))
     [11, 13, 14, 12, 15, 17, 18] =
     [Some 11, Some 13, Some 14, Some 12, Some 15, Some 17, None]"
    by (simp add: table_get_def String_of_examples example_tables_def plug_item_def
        blank_item_def)
  have pset: "ps_plugItemHash ` set (ps_reusablePlugItems example_pool) = {11, 13, 14, 12, 15}"
    using arg_cong [OF pool, of set] by simp
  have k: "\<forall>h \<in> ps_plugItemHash ` set (ps_reusablePlugItems example_pool) \<union>
                  set (getCuratedPlugHashes (example_sockets ! 1)).
             \<forall>d. table_get (DestinyInventoryItemDefinition example_tables) (String_of h) = Some d
                   \<longrightarrow> item_hash d = h"
    unfolding pset cur using keyed by auto
  note T = plug_set_column [OF h1 h2 h3 h4 h5]
  have cols: "getPerks example_weapon example_tables =
     fold (getPerks_step example_tables) [] [] @
     [getPerksFromPlugSet (example_sockets ! 1) example_pool example_tables] @
     fold (getPerks_step example_tables)
       [example_sockets ! 2, example_sockets ! 3, example_sockets ! 4, example_sockets ! 5] []"
    by (rule T [THEN conjunct1])
  have hashes: "map perk_hash
       (getPerksFromPlugSet (example_sockets ! 1) example_pool example_tables) =
     filter (\<lambda>h. resolvePerk example_tables h \<noteq> None) [11, 13, 14, 12, 15] @
     filter (\<lambda>h. resolvePerk example_tables h \<noteq> None) [17, 18]"
  proof -
    have fl: "filter (\<lambda>h. h \<notin> ps_plugItemHash ` set (ps_reusablePlugItems example_pool))
                (getCuratedPlugHashes (example_sockets ! 1)) = [17, 18]"
      unfolding pset cur by simp
    show ?thesis
      using T [THEN conjunct2, THEN conjunct2, THEN conjunct2, THEN conjunct2, THEN mp, OF k]
      unfolding pool fl .
  qed
  show ?thesis
    using h1 r h4 pool cur keyed cols ex_pool_column hashes by (simp only: simp_thms)
qed

text \<open>
  The claim as the spec words it fails on the pooled socket of weapon 7: the pool lists
  the plugs 11, 13, 14, 12, 15 and the socket's curated list is 11, 17, 18, 11, but the
  column holds only 11, 13, 14, 17: the enhanced plug 12 and the nameless plug 15 of the
  pool are not listed, and the curated hash 18, absent from the pool, is not appended.
\<close>

theorem plug_set_column_counterexample:
  "map ps_plugItemHash (ps_reusablePlugItems example_pool) = [11, 13, 14, 12, 15] \<and>
   map sp_plugItemHash (se_reusablePlugItems (example_sockets ! 1)) = [11, 17, 18, 11] \<and>
   map (map perk_hash) (getPerks example_weapon example_tables) =
     [[11, 13, 14, 17], [13], [21]]"
proof -
  have "map (map perk_hash) (getPerks example_weapon example_tables) =
     map (map fst)
       (map (map (\<lambda>p. (perk_hash p, perk_name p, isCurated p, curatedExclusive p, isDeprecated p)))
          (getPerks example_weapon example_tables))"
    by (simp add: comp_def)
  then show ?thesis
    by (simp add: ex_columns example_pool_def example_sockets_def blank_socket_def)
qed

text \<open>
  C6. On a plug set that lists the same plug hash twice, the column built by
  \<open>getPerksFromPlugSet\<close> carries that hash twice: the pool loop has no seen-hash check.
\<close>

theorem plug_set_column_repeats_hash:
  "map (map (\<lambda>p. (perk_hash p, isDeprecated p))) (getPerks dup_weapon dup_tables)
     = [[(11, False), (11, True)]]"
  by (simp add: getPerks_def eval_defs example_defs getSocketsByCategory_def array_at_def
      SocketCategoryHashes_WeaponPerks_def dup_pool_def dup_weapon_def dup_tables_def)

text \<open>
  The sibling path does collapse repeated hashes: a column built from the socket's own
  plug list never carries a hash twice.
\<close>

lemma getPerksFromReusablePlugItems_distinct:
  "distinct (map perk_hash (getPerksFromReusablePlugItems socket tables))"
proof -
  let ?P = "\<lambda>st :: Perk list \<times> hash list.
      distinct (map perk_hash (fst st)) \<and> perk_hash ` set (fst st) \<subseteq> set (snd st)"
  let ?f = "\<lambda>plug (perks, seenHashes).
                  case table_get (DestinyInventoryItemDefinition tables)
                         (String_of (sp_plugItemHash plug)) of
                    None \<Rightarrow> (perks, seenHashes)
                  | Some plugDef \<Rightarrow>
                      if \<not> isValidPerk plugDef then (perks, seenHashes)
                      else if Set_has seenHashes (item_hash plugDef) then (perks, seenHashes)
                      else (perks @
                              [createPerk plugDef
                                 \<lparr>opt_isCurated =
                                    (sp_plugItemHash plug = singleInitialItemHash socket),
                                  opt_curatedExclusive = False,
                                  opt_isDeprecated = False\<rparr>],
                            Set_add seenHashes (item_hash plugDef))"
  have step: "?P (?f x a)" if "?P a" for x a
    using that
    by (cases a) (auto simp: Set_has_def Set_add_def createPerk_def split: option.splits)
  have "?P (fold ?f (se_reusablePlugItems socket) ([], []))"
    by (rule fold_invariant) (simp, rule step)
  then show ?thesis by (simp add: getPerksFromReusablePlugItems_def)
qed

lemma map_filter_Nil_iff:
  "List.map_filter f xs = [] \<longleftrightarrow> (\<forall>x \<in> set xs. f x = None)"
  by (induction xs) (auto simp: List.map_filter_simps split: option.splits)

lemma getPerksFromPlugSet_Nil_iff:
  "getPerksFromPlugSet socket plugSet tables = [] \<longleftrightarrow>
     (\<forall>h \<in> set (map ps_plugItemHash (ps_reusablePlugItems plugSet) @
                  map sp_plugItemHash (se_reusablePlugItems socket)).
        resolvePerk tables h = None)"
  unfolding getPerksFromPlugSet_eq append_is_Nil_conv map_filter_Nil_iff
  by (auto simp: getCuratedPlugHashes_set)

lemma reusable_fold_keeps:
  "perks \<noteq> [] \<Longrightarrow>
   fst (fold (\<lambda>plug (perks, seenHashes).
                case table_get (DestinyInventoryItemDefinition tables)
                       (String_of (sp_plugItemHash plug)) of
                  None \<Rightarrow> (perks, seenHashes)
                | Some plugDef \<Rightarrow>
                    if \<not> isValidPerk plugDef then (perks, seenHashes)
                    else if Set_has seenHashes (item_hash plugDef) then (perks, seenHashes)
                    else (perks @
                            [createPerk plugDef
                               \<lparr>opt_isCurated =
                                  (sp_plugItemHash plug = singleInitialItemHash socket),
                                opt_curatedExclusive = False,
                                opt_isDeprecated = False\<rparr>],
                          Set_add seenHashes (item_hash plugDef)))
             xs (perks, seen)) \<noteq> []"
  by (induction xs arbitrary: perks seen) (auto split: option.splits)

lemma reusable_fold_Nil_iff:
  "fst (fold (\<lambda>plug (perks, seenHashes).
                case table_get (DestinyInventoryItemDefinition tables)
                       (String_of (sp_plugItemHash plug)) of
                  None \<Rightarrow> (perks, seenHashes)
                | Some plugDef \<Rightarrow>
                    if \<not> isValidPerk plugDef then (perks, seenHashes)
                    else if Set_has seenHashes (item_hash plugDef) then (perks, seenHashes)
                    else (perks @
                            [createPerk plugDef
                               \<lparr>opt_isCurated =
                                  (sp_plugItemHash plug = singleInitialItemHash socket),
                                opt_curatedExclusive = False,
                                opt_isDeprecated = False\<rparr>],
                          Set_add seenHashes (item_hash plugDef)))
             xs ([], [])) = [] \<longleftrightarrow>
   (\<forall>plug \<in> set xs. resolvePerk tables (sp_plugItemHash plug) = None)"
proof (induction xs)
  case Nil
  then show ?case by simp
next
  case (Cons x xs)
  show ?case
  proof (cases "resolvePerk tables (sp_plugItemHash x)")
    case None
    then show ?thesis using Cons.IH
      by (auto simp: resolvePerk_def split: option.splits if_splits)
  next
    case (Some d)
    then have t: "table_get (DestinyInventoryItemDefinition tables)
                    (String_of (sp_plugItemHash x)) = Some d" and v: "isValidPerk d"
      using resolvePerk_SomeD by blast+
    show ?thesis
      using Some reusable_fold_keeps [where tables = tables and socket = socket and xs = xs
          and perks = "[createPerk d
                               \<lparr>opt_isCurated =
                                  (sp_plugItemHash x = singleInitialItemHash socket),
                                opt_curatedExclusive = False,
                                opt_isDeprecated = False\<rparr>]"
          and seen = "Set_add [] (item_hash d)"]
      by (simp add: t v Set_has_def)
  qed
qed

lemma getPerksFromReusablePlugItems_Nil_iff:
  "getPerksFromReusablePlugItems socket tables = [] \<longleftrightarrow>
     (\<forall>plug \<in> set (se_reusablePlugItems socket).
        resolvePerk tables (sp_plugItemHash plug) = None)"
  unfolding getPerksFromReusablePlugItems_def by (rule reusable_fold_Nil_iff)

lemma getFixedPerk_None_iff:
  "getFixedPerk socket tables = None \<longleftrightarrow>
     singleInitialItemHash socket = 0 \<or>
     resolvePerk tables (singleInitialItemHash socket) = None"
  by (auto simp: getFixedPerk_def resolvePerk_def split: option.splits if_splits)

lemma getPerks_step_Nil_iff:
  "getPerks_step tables socket [] = [] \<longleftrightarrow>
     (\<forall>h \<in> set (candidateHashes tables socket). resolvePerk tables h = None)"
proof (cases "socketTypeHash socket = SocketTypeHashes_Tracker")
  case True
  then show ?thesis by (simp add: getPerks_step_def candidateHashes_def)
next
  case nt: False
  show ?thesis
  proof (cases "case randomizedPlugSetHash socket of
                  Some h \<Rightarrow> Some h | None \<Rightarrow> reusablePlugSetHash socket")
    case None
    show ?thesis
    proof (cases "se_reusablePlugItems socket = []")
      case True
      then show ?thesis
        using nt None getFixedPerk_None_iff [of socket tables]
        by (auto simp: getPerks_step_def candidateHashes_def split: option.splits)
    next
      case False
      then show ?thesis
        using nt None getPerksFromReusablePlugItems_Nil_iff [of socket tables]
        by (auto simp: getPerks_step_def candidateHashes_def Let_def)
    qed
  next
    case (Some plugSetHash)
    show ?thesis
    proof (cases "table_get (DestinyPlugSetDefinition tables) (String_of plugSetHash)")
      case None
      then show ?thesis
        using nt Some by (simp add: getPerks_step_def candidateHashes_def)
    next
      case ps: (Some plugSet)
      show ?thesis
        using nt Some ps getPerksFromPlugSet_Nil_iff [of socket plugSet tables]
        by (simp add: getPerks_step_def candidateHashes_def Let_def)
    qed
  qed
qed

lemma length_concat_singletons:
  assumes "\<And>x. g x = [] \<or> (\<exists>c. g x = [c])"
  shows "length (concat (map g xs)) = length (filter (\<lambda>x. g x \<noteq> []) xs)"
proof (induction xs)
  case Nil
  then show ?case by simp
next
  case (Cons x xs)
  then show ?case using assms [of x] by auto
qed

text \<open>
  C8. No perk column of an emitted full record is empty, and none that \<open>getPerks\<close>
  returns for any item is; a socket either leaves the columns collected so far as they
  are or appends one non-empty column to them. A socket whose candidate plug hashes all
  fail to resolve to a valid plug definition (all are filtered out) adds no column; a
  socket with a candidate that resolves adds exactly one, non-empty; so \<open>getPerks\<close>
  returns as many columns as the weapon-perks category has sockets with a surviving
  candidate.
\<close>

theorem full_columns_never_empty:
  "(\<forall>w \<in> set (full (transformWeapons tables d2aiData)).
      \<forall>column \<in> set (wf_perks w). column \<noteq> []) \<and>
   (\<forall>column \<in> set (getPerks itemDef tables). column \<noteq> []) \<and>
   (getPerks_step tables socket perkColumns = perkColumns \<or>
    (\<exists>column. column \<noteq> [] \<and>
       getPerks_step tables socket perkColumns = perkColumns @ [column])) \<and>
   ((\<forall>h \<in> set (candidateHashes tables socket). resolvePerk tables h = None) \<longrightarrow>
      getPerks_step tables socket perkColumns = perkColumns) \<and>
   ((\<exists>h \<in> set (candidateHashes tables socket). resolvePerk tables h \<noteq> None) \<longrightarrow>
      (\<exists>column. column \<noteq> [] \<and>
         getPerks_step tables socket perkColumns = perkColumns @ [column])) \<and>
   length (getPerks itemDef tables) =
     length (filter (\<lambda>s. \<exists>h \<in> set (candidateHashes tables s). resolvePerk tables h \<noteq> None)
               (getSocketsByCategory itemDef SocketCategoryHashes_WeaponPerks))"
proof -
  have a: "\<forall>column \<in> set (getPerks item tables). column \<noteq> []" for item
    using getPerks_no_empty [of item tables] by auto
  have b: "\<forall>w \<in> set (full (transformWeapons tables d2aiData)).
             \<forall>column \<in> set (wf_perks w). column \<noteq> []"
  proof (intro ballI)
    fix w column
    assume "w \<in> set (full (transformWeapons tables d2aiData))" "column \<in> set (wf_perks w)"
    then obtain item where "column \<in> set (getPerks item tables)"
      using builtRecord_SomeD(4) by (fastforce simp: full_mem_built)
    then show "column \<noteq> []" using a by blast
  qed
  have c: "getPerks_step tables socket perkColumns = perkColumns \<or>
    (\<exists>column. column \<noteq> [] \<and>
       getPerks_step tables socket perkColumns = perkColumns @ [column])"
    using getPerks_step_single [of tables socket]
      getPerks_step_append [of tables socket perkColumns]
    by auto
  have d: "getPerks_step tables socket perkColumns = perkColumns"
    if "\<forall>h \<in> set (candidateHashes tables socket). resolvePerk tables h = None"
    using that getPerks_step_Nil_iff [of tables socket]
      getPerks_step_append [of tables socket perkColumns]
    by simp
  have e: "\<exists>column. column \<noteq> [] \<and>
         getPerks_step tables socket perkColumns = perkColumns @ [column]"
    if "\<exists>h \<in> set (candidateHashes tables socket). resolvePerk tables h \<noteq> None"
  proof -
    have "getPerks_step tables socket [] \<noteq> []"
      using that by (simp add: getPerks_step_Nil_iff)
    then obtain column where "column \<noteq> []" "getPerks_step tables socket [] = [column]"
      using getPerks_step_single [of tables socket] by blast
    then show ?thesis
      using getPerks_step_append [of tables socket perkColumns] by simp
  qed
  have f: "length (getPerks itemDef tables) =
     length (filter (\<lambda>s. \<exists>h \<in> set (candidateHashes tables s). resolvePerk tables h \<noteq> None)
               (getSocketsByCategory itemDef SocketCategoryHashes_WeaponPerks))"
  proof -
    have sg: "\<And>s. getPerks_step tables s [] = [] \<or> (\<exists>c. getPerks_step tables s [] = [c])"
      using getPerks_step_single by blast
    have "length (getPerks itemDef tables) =
        length (filter (\<lambda>s. getPerks_step tables s [] \<noteq> [])
                  (getSocketsByCategory itemDef SocketCategoryHashes_WeaponPerks))"
      unfolding getPerks_def fold_getPerks_step_Nil
      by (rule length_concat_singletons [of "\<lambda>s. getPerks_step tables s []", OF sg])
    also have "(\<lambda>s. getPerks_step tables s [] \<noteq> []) =
        (\<lambda>s. \<exists>h \<in> set (candidateHashes tables s). resolvePerk tables h \<noteq> None)"
      by (rule ext) (simp add: getPerks_step_Nil_iff)
    finally show ?thesis .
  qed
  show ?thesis using a b c d e f by blast
qed

theorem full_columns_never_empty_witness:
  "length (getPerks example_weapon example_tables) = 3 \<and>
   [] \<notin> set (getPerks example_weapon example_tables) \<and>
   candidateHashes example_tables (example_sockets ! 5) = [12, 16] \<and>
   resolvePerk example_tables 12 = None \<and>
   resolvePerk example_tables 16 = None \<and>
   getPerks_step example_tables (example_sockets ! 5) [] = [] \<and>
   candidateHashes example_tables (example_sockets ! 3) = [13, 13, 16] \<and>
   resolvePerk example_tables 13 \<noteq> None \<and>
   length (getPerks_step example_tables (example_sockets ! 3) []) = 1"
proof -
  note T = full_columns_never_empty [of example_tables example_d2ai example_weapon
        "example_sockets ! 5" "[]"]
  note U = full_columns_never_empty [of example_tables example_d2ai example_weapon
        "example_sockets ! 3" "[]"]
  have c5: "candidateHashes example_tables (example_sockets ! 5) = [12, 16]"
    by (simp add: candidateHashes_def table_get_def String_of_examples
        SocketTypeHashes_Tracker_def example_sockets_def blank_socket_def example_tables_def)
  have c3: "candidateHashes example_tables (example_sockets ! 3) = [13, 13, 16]"
    by (simp add: candidateHashes_def SocketTypeHashes_Tracker_def example_sockets_def
        blank_socket_def)
  have r: "resolvePerk example_tables 12 = None" "resolvePerk example_tables 16 = None"
    "resolvePerk example_tables 13 \<noteq> None"
    by (simp_all add: resolvePerk_def eval_defs example_tables_def plug_item_def blank_item_def)
  have all5: "\<forall>h \<in> set (candidateHashes example_tables (example_sockets ! 5)).
                resolvePerk example_tables h = None"
    unfolding c5 using r by simp
  have s5: "getPerks_step example_tables (example_sockets ! 5) [] = []"
    by (rule T [THEN conjunct2, THEN conjunct2, THEN conjunct2, THEN conjunct1, THEN mp,
                OF all5])
  have ex3: "\<exists>h \<in> set (candidateHashes example_tables (example_sockets ! 3)).
                resolvePerk example_tables h \<noteq> None"
    unfolding c3 using r by simp
  have s3: "length (getPerks_step example_tables (example_sockets ! 3) []) = 1"
    using U [THEN conjunct2, THEN conjunct2, THEN conjunct2, THEN conjunct2, THEN conjunct1,
             THEN mp, OF ex3]
    by auto
  have ne: "[] \<notin> set (getPerks example_weapon example_tables)"
    using T [THEN conjunct2, THEN conjunct1] by blast
  show ?thesis using ex_lengths(1) ne c5 r s5 c3 s3 by (simp only: simp_thms)
qed

lemma isValidPerk_iff:
  "isValidPerk plugDef \<longleftrightarrow>
     dp_name (displayProperties plugDef) \<noteq> [] \<and>
     (\<forall>pb c. plug plugDef = Some pb \<longrightarrow> plugCategoryHash pb = Some c \<longrightarrow>
        c \<noteq> 3618704867 \<and> c \<noteq> 1915962497) \<and>
     (\<forall>iv. inventory plugDef = Some iv \<longrightarrow> inv_tierType iv \<noteq> Some 3)"
  by (auto simp: isValidPerk_def isEmptyPlug_def isEnhancedPerk_def Set_has_def
      EMPTY_PLUG_CATEGORY_HASHES_def EmptyPlugCategoryHashes_EmptySocketPlug_def
      EmptyPlugCategoryHashes_EmptyModSocketPlug_def ENHANCED_PERK_TIER_TYPE_def
      split: option.splits)

lemma getPerksFromPlugSet_valid:
  assumes "p \<in> set (getPerksFromPlugSet socket plugSet tables)"
  shows "\<exists>h plugDef options. resolvePerk tables h = Some plugDef \<and> p = createPerk plugDef options"
  using assms unfolding getPerksFromPlugSet_eq
  by (auto dest!: map_filter_mem)

lemma getPerksFromReusablePlugItems_valid:
  assumes "p \<in> set (getPerksFromReusablePlugItems socket tables)"
  shows "\<exists>h plugDef options. resolvePerk tables h = Some plugDef \<and> p = createPerk plugDef options"
proof -
  let ?P = "\<lambda>st :: Perk list \<times> hash list. \<forall>q \<in> set (fst st).
      \<exists>h plugDef options. resolvePerk tables h = Some plugDef \<and> q = createPerk plugDef options"
  let ?f = "\<lambda>plug (perks, seenHashes).
                  case table_get (DestinyInventoryItemDefinition tables)
                         (String_of (sp_plugItemHash plug)) of
                    None \<Rightarrow> (perks, seenHashes)
                  | Some plugDef \<Rightarrow>
                      if \<not> isValidPerk plugDef then (perks, seenHashes)
                      else if Set_has seenHashes (item_hash plugDef) then (perks, seenHashes)
                      else (perks @
                              [createPerk plugDef
                                 \<lparr>opt_isCurated = (sp_plugItemHash plug = singleInitialItemHash socket),
                                  opt_curatedExclusive = False,
                                  opt_isDeprecated = False\<rparr>],
                            Set_add seenHashes (item_hash plugDef))"
  have step: "?P (?f x a)" if "?P a" for x a
  proof (cases a)
    case (Pair perks seen)
    show ?thesis
    proof (cases "resolvePerk tables (sp_plugItemHash x)")
      case None
      then show ?thesis using that Pair
        by (auto simp: resolvePerk_def split: option.splits if_splits)
    next
      case (Some d)
      then have "table_get (DestinyInventoryItemDefinition tables)
                   (String_of (sp_plugItemHash x)) = Some d" "isValidPerk d"
        by (auto simp: resolvePerk_def split: option.splits if_splits)
      then show ?thesis using that Pair Some by auto
    qed
  qed
  have "?P (fold ?f (se_reusablePlugItems socket) ([], []))"
    by (rule fold_invariant) (simp, rule step)
  then show ?thesis using assms by (simp add: getPerksFromReusablePlugItems_def)
qed

lemma getFixedPerk_valid:
  assumes "getFixedPerk socket tables = Some p"
  shows "\<exists>h plugDef options. resolvePerk tables h = Some plugDef \<and> p = createPerk plugDef options"
proof -
  obtain d where "resolvePerk tables (singleInitialItemHash socket) = Some d"
      "p = createPerk d \<lparr>opt_isCurated = True, opt_curatedExclusive = True, opt_isDeprecated = False\<rparr>"
    using assms by (auto simp: getFixedPerk_def resolvePerk_def split: if_splits option.splits)
  then show ?thesis by blast
qed

lemma getPerks_step_valid:
  assumes "column \<in> set (getPerks_step tables socket [])" and "p \<in> set column"
  shows "\<exists>h plugDef options. resolvePerk tables h = Some plugDef \<and> p = createPerk plugDef options"
  using assms getPerksFromPlugSet_valid getPerksFromReusablePlugItems_valid getFixedPerk_valid
  by (fastforce simp: getPerks_step_def Let_def split: if_splits option.splits)

lemma getPerks_valid:
  assumes "column \<in> set (getPerks itemDef tables)" and "p \<in> set column"
  shows "\<exists>h plugDef options. resolvePerk tables h = Some plugDef \<and> p = createPerk plugDef options"
proof -
  from assms(1) obtain socket where "column \<in> set (getPerks_step tables socket [])"
    by (auto simp: getPerks_def fold_getPerks_step)
  then show ?thesis using assms(2) by (rule getPerks_step_valid)
qed

text \<open>
  C9. Every perk of every perk column of every emitted full record was created from a
  plug definition of the item table whose display name is non-empty, whose plug category
  hash, if it has one, is neither of the two empty-plug hashes, and whose inventory tier,
  if it has one, is not the enhanced-perk tier 3. This covers the three construction
  paths: plug set, direct reusable list and single fixed plug.
\<close>

theorem perk_columns_only_valid_plugs:
  "\<forall>w \<in> set (full (transformWeapons tables d2aiData)).
     \<forall>column \<in> set (wf_perks w). \<forall>p \<in> set column.
       \<exists>h plugDef options.
         table_get (DestinyInventoryItemDefinition tables) (String_of h) = Some plugDef \<and>
         p = createPerk plugDef options \<and>
         dp_name (displayProperties plugDef) \<noteq> [] \<and>
         (\<forall>pb c. plug plugDef = Some pb \<longrightarrow> plugCategoryHash pb = Some c \<longrightarrow>
            c \<noteq> 3618704867 \<and> c \<noteq> 1915962497) \<and>
         (\<forall>iv. inventory plugDef = Some iv \<longrightarrow> inv_tierType iv \<noteq> Some 3)"
proof (intro ballI)
  fix w column p
  assume w: "w \<in> set (full (transformWeapons tables d2aiData))"
     and c: "column \<in> set (wf_perks w)" and p: "p \<in> set column"
  from w obtain itemDef where "wf_perks w = getPerks itemDef tables"
    using builtRecord_SomeD(4) by (fastforce simp: full_mem_built)
  with c have "column \<in> set (getPerks itemDef tables)" by simp
  from getPerks_valid [OF this p] obtain h plugDef options where
    r: "resolvePerk tables h = Some plugDef" and e: "p = createPerk plugDef options"
    by blast
  from resolvePerk_SomeD [OF r] have
    t: "table_get (DestinyInventoryItemDefinition tables) (String_of h) = Some plugDef"
    and v: "isValidPerk plugDef" by simp_all
  have "dp_name (displayProperties plugDef) \<noteq> [] \<and>
     (\<forall>pb c. plug plugDef = Some pb \<longrightarrow> plugCategoryHash pb = Some c \<longrightarrow>
        c \<noteq> 3618704867 \<and> c \<noteq> 1915962497) \<and>
     (\<forall>iv. inventory plugDef = Some iv \<longrightarrow> inv_tierType iv \<noteq> Some 3)"
    by (rule iffD1 [OF isValidPerk_iff v])
  with t e show "\<exists>h plugDef options.
         table_get (DestinyInventoryItemDefinition tables) (String_of h) = Some plugDef \<and>
         p = createPerk plugDef options \<and>
         dp_name (displayProperties plugDef) \<noteq> [] \<and>
         (\<forall>pb c. plug plugDef = Some pb \<longrightarrow> plugCategoryHash pb = Some c \<longrightarrow>
            c \<noteq> 3618704867 \<and> c \<noteq> 1915962497) \<and>
         (\<forall>iv. inventory plugDef = Some iv \<longrightarrow> inv_tierType iv \<noteq> Some 3)"
    by blast
qed

theorem perk_columns_only_valid_plugs_witness:
  "length (full (transformWeapons example_tables example_d2ai)) = 1 \<and>
   length (wf_perks (full (transformWeapons example_tables example_d2ai) ! 0)) = 3 \<and>
   length (wf_perks (full (transformWeapons example_tables example_d2ai) ! 0) ! 0) = 4 \<and>
   (\<exists>h plugDef options.
      table_get (DestinyInventoryItemDefinition example_tables) (String_of h) = Some plugDef \<and>
      wf_perks (full (transformWeapons example_tables example_d2ai) ! 0) ! 0 ! 0
        = createPerk plugDef options \<and>
      dp_name (displayProperties plugDef) \<noteq> [] \<and>
      (\<forall>pb c. plug plugDef = Some pb \<longrightarrow> plugCategoryHash pb = Some c \<longrightarrow>
         c \<noteq> 3618704867 \<and> c \<noteq> 1915962497) \<and>
      (\<forall>iv. inventory plugDef = Some iv \<longrightarrow> inv_tierType iv \<noteq> Some 3))"
proof -
  let ?w = "full (transformWeapons example_tables example_d2ai) ! 0"
  have a: "length (full (transformWeapons example_tables example_d2ai)) = 1"
    by (simp add: ex_full)
  have p: "wf_perks ?w = getPerks example_weapon example_tables"
    by (simp add: ex_full ex_built_fields)
  have b: "length (wf_perks ?w) = 3"
    by (simp add: p ex_lengths)
  have c: "length (wf_perks ?w ! 0) = 4"
    by (simp add: p ex_lengths)
  have m1: "?w \<in> set (full (transformWeapons example_tables example_d2ai))"
    by (rule nth_mem) (simp add: a)
  have m2: "wf_perks ?w ! 0 \<in> set (wf_perks ?w)"
    by (rule nth_mem) (simp add: b)
  have m3: "wf_perks ?w ! 0 ! 0 \<in> set (wf_perks ?w ! 0)"
    by (rule nth_mem) (simp add: c)
  show ?thesis
    using a b c perk_columns_only_valid_plugs [of example_tables example_d2ai, rule_format, OF m1 m2 m3]
    by (simp only: simp_thms)
qed

end
